theory Spec2Isabelle
  imports Complex_Main "HOL-Library.Sublist"
begin

chapter \<open>The model\<close>

section \<open>Numbers, sides and random draws\<close>

text \<open>
  The TypeScript type \<open>number\<close> is modelled by \<^typ>\<open>real\<close>: the arithmetic of the
  replication policy is read as exact arithmetic on finite numbers. \<open>Math.floor\<close> is
  \<^const>\<open>floor\<close>, \<open>Math.max\<close> and \<open>Math.min\<close> are \<^const>\<open>max\<close> and \<^const>\<open>min\<close>.
  The one operation that leaves the finite numbers is the division by a product that
  may be zero, in the contract counts of the batches; its result has the type \<open>jsnum\<close>
  below.

  \<open>Math.random()\<close> returns a number in \<open>[0, 1)\<close>. Every function of the source that
  calls it takes the drawn number as an explicit argument \<open>r\<close>; the batch loops take a
  supply \<open>rnd :: nat \<Rightarrow> real\<close> of draws and a counter of the draws made so far.
\<close>

datatype side = Long | Short

text \<open>\<open>helpers.ts\<close>: \<open>randomDelay\<close>, \<open>applyPriceDeviation\<close>, \<open>randomLeverage\<close>.\<close>

definition randomDelay :: "real \<Rightarrow> real \<Rightarrow> real \<Rightarrow> real" where
  "randomDelay minMs maxMs r = of_int \<lfloor>r * (maxMs - minMs + 1)\<rfloor> + minMs"

definition applyPriceDeviation :: "real \<Rightarrow> real \<Rightarrow> side \<Rightarrow> real \<Rightarrow> real" where
  "applyPriceDeviation basePrice maxDeviationPercent direction r =
     (let deviation = r * maxDeviationPercent in
      if direction = Long then basePrice * (1 + deviation / 100)
      else basePrice * (1 - deviation / 100))"

definition randomLeverage :: "real \<Rightarrow> real \<Rightarrow> real \<Rightarrow> real" where
  "randomLeverage lo hi r = of_int \<lfloor>r * (hi - lo + 1)\<rfloor> + lo"

text \<open>
  The factor by which \<open>applyPriceDeviation\<close> multiplies the base price:
  \<open>1 + deviation / 100\<close> for long, \<open>1 - deviation / 100\<close> for short.
\<close>

definition deviationFactor :: "real \<Rightarrow> side \<Rightarrow> real \<Rightarrow> real" where
  "deviationFactor maxDeviationPercent direction r =
     (let deviation = r * maxDeviationPercent in
      if direction = Long then 1 + deviation / 100 else 1 - deviation / 100)"

subsection \<open>Division by a product that may be zero\<close>

text \<open>
  A division of JavaScript never throws. With finite operands, \<open>x / d\<close> is the quotient
  when \<open>d\<close> is not zero; when \<open>d\<close> is zero it is \<open>NaN\<close> for \<open>x = 0\<close>, and otherwise
  \<open>Infinity\<close> or \<open>-Infinity\<close>: \<open>Infinity\<close> when the sign of \<open>x\<close> and the sign of the
  zero agree. The sign of a zero product is the product of the signs of its factors.
\<close>

datatype jsnum = Fin real | PosInf | NegInf | NaN

text \<open>
  \<open>jsDivide x [f\<^sub>1, \<dots>, f\<^sub>n]\<close> is \<open>x / (f\<^sub>1 * \<dots> * f\<^sub>n)\<close>. The factors are kept apart
  because a real number that is zero has lost the sign of the zero that JavaScript
  computes. A zero among \<open>x\<close> and the factors themselves is the positive zero (what
  \<open>parseFloat\<close> reads from digits, and what a sum such as \<open>1 + (-1)\<close> gives), so the
  product is the negative zero exactly when it is zero and an odd number of factors is
  negative.
\<close>

definition jsDivide :: "real \<Rightarrow> real list \<Rightarrow> jsnum" where
  "jsDivide x factors =
     (let d = prod_list factors in
      if d \<noteq> 0 then Fin (x / d)
      else if x = 0 then NaN
      else if (0 < x) = even (length (filter (\<lambda>f. f < 0) factors)) then PosInf
      else NegInf)"

text \<open>
  \<open>Math.floor(v)\<close>; \<open>Math.max(a, v)\<close> and the comparison \<open>v < b\<close> for finite \<open>a\<close> and
  \<open>b\<close>. \<open>Math.max\<close> returns \<open>NaN\<close> when an argument is \<open>NaN\<close>; every comparison with
  \<open>NaN\<close> is false.
\<close>

fun jsFloor :: "jsnum \<Rightarrow> jsnum" where
  "jsFloor (Fin x) = Fin (of_int \<lfloor>x\<rfloor>)"
| "jsFloor PosInf = PosInf"
| "jsFloor NegInf = NegInf"
| "jsFloor NaN = NaN"

fun jsMax :: "real \<Rightarrow> jsnum \<Rightarrow> jsnum" where
  "jsMax a (Fin x) = Fin (max a x)"
| "jsMax a PosInf = PosInf"
| "jsMax a NegInf = Fin a"
| "jsMax a NaN = NaN"

fun jsLess :: "jsnum \<Rightarrow> real \<Rightarrow> bool" where
  "jsLess (Fin x) b = (x < b)"
| "jsLess PosInf b = False"
| "jsLess NegInf b = True"
| "jsLess NaN b = False"

section \<open>Strings\<close>

text \<open>
  Texts are lists of characters. \<open>toUpperCase\<close> and \<open>toLowerCase\<close> are modelled on the
  ASCII letters, which are the only letters the patterns and keywords of the source
  mention; \<open>includesStr\<close> is the substring test of \<open>String.prototype.includes\<close>.
\<close>

definition upperChar :: "char \<Rightarrow> char" where
  "upperChar c = (let n = (of_char c :: nat) in if 97 \<le> n \<and> n \<le> 122 then char_of (n - 32) else c)"

definition lowerChar :: "char \<Rightarrow> char" where
  "lowerChar c = (let n = (of_char c :: nat) in if 65 \<le> n \<and> n \<le> 90 then char_of (n + 32) else c)"

definition toUpperCase :: "string \<Rightarrow> string" where
  "toUpperCase s = map upperChar s"

definition toLowerCase :: "string \<Rightarrow> string" where
  "toLowerCase s = map lowerChar s"

fun includesStr :: "string \<Rightarrow> string \<Rightarrow> bool" where
  "includesStr [] pat = (pat = [])"
| "includesStr (c # cs) pat = (prefix pat (c # cs) \<or> includesStr cs pat)"

section \<open>The exchange client: \<open>submitOrder\<close>\<close>

text \<open>
  \<open>client.ts\<close>, \<open>MexcClientWrapper.submitOrder\<close>. The parameters of an order are
  the record the wrapper hands to the SDK.
\<close>

record order_params =
  o_symbol :: string
  o_price :: real
  o_vol :: real
  o_side :: nat
  o_type :: nat
  o_openType :: nat
  o_leverage :: real
  o_takeProfitPrice :: "real option"
  o_stopLossPrice :: "real option"

text \<open>
  What the SDK's \<open>submitOrder\<close> can do: throw, or return a response \<open>res\<close> (possibly
  \<open>null\<close>/\<open>undefined\<close>, which is \<open>None\<close>). A thrown value is represented by the
  message \<open>msg\<close> that the \<open>catch\<close> block computes from it
  (\<open>getUserFriendlyMessage()\<close> or \<open>String(err?.message || err)\<close>). The fields of the
  response are the ones the wrapper reads; an absent field is \<open>None\<close>.
\<close>

record sdk_response =
  res_success :: "bool option"
  res_message :: "string option"
  res_data_orderId :: "string option"
  res_orderId :: "string option"

datatype sdk_outcome = Throws string | Returns "sdk_response option"

text \<open>The wrapper's result \<open>{ success, orderId?, message? }\<close>.\<close>

record submit_result =
  sr_success :: bool
  sr_orderId :: "string option"
  sr_message :: "string option"

text \<open>What the wrapper does to the outside while it runs: SDK calls and sleeps.\<close>

datatype sdk_event = SdkSubmit order_params | SleepMs real

text \<open>\<open>a || b\<close> on optional strings: \<open>undefined\<close> and the empty string are falsy.\<close>

definition truthy :: "string option \<Rightarrow> bool" where
  "truthy a = (case a of None \<Rightarrow> False | Some s \<Rightarrow> s \<noteq> [])"

definition jsOr :: "string option \<Rightarrow> string option \<Rightarrow> string option" where
  "jsOr a b = (if truthy a then a else b)"

definition isRateLimit :: "string \<Rightarrow> bool" where
  "isRateLimit msg = (includesStr (toLowerCase msg) ''too frequent'' \<or>
                      includesStr (toLowerCase msg) ''rate limit'')"

text \<open>
  The \<open>while (true)\<close> loop, from the iteration with counter \<open>attempt\<close> on. The SDK is
  \<open>sdk\<close>: \<open>sdk n\<close> is what its \<open>n\<close>-th call does (the loop makes call number
  \<open>attempt\<close> in the iteration with that counter); \<open>r\<close> is the draw of \<open>Math.random()\<close>
  for the backoff. The result comes with the list of events in the order they happen.
\<close>

function submitOrder_from ::
  "(nat \<Rightarrow> sdk_outcome) \<Rightarrow> real \<Rightarrow> order_params \<Rightarrow> nat \<Rightarrow> submit_result \<times> sdk_event list"
where
  "submitOrder_from sdk r params attempt =
     (case sdk attempt of
        Returns res \<Rightarrow>
          (if (case res of None \<Rightarrow> False | Some x \<Rightarrow> res_success x = Some False) then
             (\<lparr>sr_success = False, sr_orderId = None,
               sr_message = jsOr (case res of None \<Rightarrow> None | Some x \<Rightarrow> res_message x)
                                 (Some ''Unknown error'')\<rparr>,
              [SdkSubmit params])
           else
             (\<lparr>sr_success = True,
               sr_orderId = (case res of None \<Rightarrow> None
                             | Some x \<Rightarrow> jsOr (res_data_orderId x) (res_orderId x)),
               sr_message = None\<rparr>,
              [SdkSubmit params]))
      | Throws msg \<Rightarrow>
          (if isRateLimit msg \<and> attempt = 0 then
             (let backoff = 500 + r * 700;
                  (result, events) = submitOrder_from sdk r params (attempt + 1)
              in (result, SdkSubmit params # SleepMs backoff # events))
           else
             (\<lparr>sr_success = False, sr_orderId = None, sr_message = Some msg\<rparr>,
              [SdkSubmit params])))"
  by pat_completeness auto
termination
  by (relation "measure (\<lambda>(sdk, r, params, attempt). 1 - attempt)") auto

definition submitOrder ::
  "(nat \<Rightarrow> sdk_outcome) \<Rightarrow> real \<Rightarrow> order_params \<Rightarrow> submit_result \<times> sdk_event list"
where
  "submitOrder sdk r params = submitOrder_from sdk r params 0"

section \<open>The exchange client: open positions\<close>

text \<open>\<open>types.ts\<close>, \<open>Position\<close>.\<close>

record position =
  p_symbol :: string
  p_side :: side
  p_volume :: real
  p_entryPrice :: real
  p_leverage :: real
  p_margin :: real
  p_unrealizedPnl :: real
  p_liquidationPrice :: "real option"

text \<open>
  A row of \<open>res.data\<close> as \<open>getOpenPositions\<close> reads it. Each numeric field stands for
  the number that \<open>parseFloat\<close>/\<open>parseInt\<close> reads from the row:
  \<open>raw_holdVol\<close> is \<open>parseFloat(p.holdVol)\<close>, with \<open>None\<close> for \<open>NaN\<close>;
  \<open>raw_entryPrice\<close> is \<open>parseFloat(p.openAvgPrice || p.avgPrice || '0')\<close>, and so on.
\<close>

record raw_position =
  raw_symbol :: string
  raw_positionType :: int
  raw_holdVol :: "real option"
  raw_entryPrice :: real
  raw_leverage :: real
  raw_im :: real
  raw_unrealisedPnl :: real
  raw_liquidatePrice :: "real option"

text \<open>
  What the body of the \<open>try\<close> block can do: throw (the SDK call throws, or the data is
  not a list of rows), or produce \<open>res?.data\<close>, which is \<open>None\<close> when it is absent.
\<close>

datatype positions_outcome = PositionsThrow string | PositionsReturn "raw_position list option"

definition toPosition :: "raw_position \<Rightarrow> position" where
  "toPosition p =
     \<lparr>p_symbol = raw_symbol p,
      p_side = (if raw_positionType p = 1 then Long else Short),
      p_volume = (case raw_holdVol p of None \<Rightarrow> 0 | Some v \<Rightarrow> v),
      p_entryPrice = raw_entryPrice p,
      p_leverage = raw_leverage p,
      p_margin = raw_im p,
      p_unrealizedPnl = raw_unrealisedPnl p,
      p_liquidationPrice = raw_liquidatePrice p\<rparr>"

text \<open>
  \<open>MexcClientWrapper.getOpenPositions(symbol?)\<close>: the query carries the symbol when it
  is truthy; rows with \<open>parseFloat(p.holdVol) > 0\<close> are kept (\<open>NaN > 0\<close> is false); the
  \<open>catch\<close> block returns \<open>[]\<close>.
\<close>

definition getOpenPositions ::
  "(string option \<Rightarrow> positions_outcome) \<Rightarrow> string option \<Rightarrow> position list"
where
  "getOpenPositions sdk symbol =
     (case sdk (if truthy symbol then symbol else None) of
        PositionsThrow err \<Rightarrow> []
      | PositionsReturn res \<Rightarrow>
          map toPosition
            (filter (\<lambda>p. case raw_holdVol p of None \<Rightarrow> False | Some v \<Rightarrow> 0 < v)
               (case res of None \<Rightarrow> [] | Some rows \<Rightarrow> rows)))"

definition hasOpenPosition :: "(string option \<Rightarrow> positions_outcome) \<Rightarrow> string \<Rightarrow> bool" where
  "hasOpenPosition sdk symbol = (0 < length (getOpenPositions sdk (Some symbol)))"

section \<open>The client as the engine sees it\<close>

text \<open>
  The engine and the signal handlers call the methods of a client inside \<open>try\<close> blocks.
  A method is modelled by its answer: \<open>Inr\<close> a value, or \<open>Inl msg\<close> when the promise
  rejects, \<open>msg\<close> being the text \<open>err?.message || String(err)\<close> of the error.
  \<open>getContractInfo\<close> is also called outside every \<open>try\<close> block; it is modelled as
  the wrapper implements it (\<open>client.ts\<close>, its \<open>catch\<close> returns \<open>null\<close>): it answers
  a contract description or nothing.
\<close>

record contract_info =
  ci_contractSize :: real
  ci_maxVolume :: real
  ci_priceStep :: real
  ci_volumeStep :: real
  ci_minVolume :: real

record open_params =
  op_symbol :: string
  op_side :: side
  op_price :: real
  op_volume :: jsnum
  op_leverage :: real
  op_takeProfit :: "real option"

record close_params =
  cl_symbol :: string
  cl_side :: side
  cl_price :: real
  cl_volume :: real

record tpsl_params =
  ts_symbol :: string
  ts_side :: side
  ts_takeProfit :: "real option"
  ts_stopLoss :: "real option"

record tpsl_result =
  tsr_success :: bool
  tsr_message :: "string option"

record client =
  c_getOpenPositions :: "string option \<Rightarrow> string + position list"
  c_hasOpenPosition :: "string \<Rightarrow> string + bool"
  c_getContractInfo :: "string \<Rightarrow> contract_info option"
  c_cancelAllOrders :: "string \<Rightarrow> string + bool"
  c_openPosition :: "open_params \<Rightarrow> string + submit_result"
  c_closePosition :: "close_params \<Rightarrow> string + submit_result"
  c_setTpSl :: "tpsl_params \<Rightarrow> string + tpsl_result"
  c_getCurrentPrice :: "string \<Rightarrow> string + real option"

text \<open>
  A client with nothing behind it: no positions, no contract description, every order
  accepted without an order id. Concrete clients are written as updates of it.
\<close>

definition quietClient :: client where
  "quietClient =
     \<lparr>c_getOpenPositions = (\<lambda>symbol. Inr []),
      c_hasOpenPosition = (\<lambda>symbol. Inr False),
      c_getContractInfo = (\<lambda>symbol. None),
      c_cancelAllOrders = (\<lambda>symbol. Inr True),
      c_openPosition = (\<lambda>params. Inr \<lparr>sr_success = True, sr_orderId = None, sr_message = None\<rparr>),
      c_closePosition = (\<lambda>params. Inr \<lparr>sr_success = True, sr_orderId = None, sr_message = None\<rparr>),
      c_setTpSl = (\<lambda>params. Inr \<lparr>tsr_success = True, tsr_message = None\<rparr>),
      c_getCurrentPrice = (\<lambda>symbol. Inr None)\<rparr>"

text \<open>
  The position methods of \<open>MexcClientWrapper\<close> over an SDK: they never reject.
\<close>

definition wrapperPositions :: "(string option \<Rightarrow> positions_outcome) \<Rightarrow> client \<Rightarrow> client" where
  "wrapperPositions sdk c =
     c\<lparr>c_getOpenPositions := (\<lambda>symbol. Inr (getOpenPositions sdk symbol)),
       c_hasOpenPosition := (\<lambda>symbol. Inr (hasOpenPosition sdk symbol))\<rparr>"

section \<open>What a run does to the outside\<close>

text \<open>
  The calls that change something at the exchange, the sleeps, the timers armed and the
  errors logged, each with the id of the account it is made for. Queries are not
  recorded. The texts of the source's messages are Russian; the model names them by
  constants with an English rendering.
\<close>

datatype effect =
    Sleep real
  | OpenPosition string open_params
  | ClosePosition string close_params
  | SetTpSl string tpsl_params
  | CancelAllOrders string string
  | ArmCancelTimer string string real
  | LogError string string

definition msgClientNotInitialised :: string where
  "msgClientNotInitialised = ''Client not initialised''"

definition msgAlreadyInPosition :: string where
  "msgAlreadyInPosition = ''Already in position''"

definition msgPositionNotFound :: string where
  "msgPositionNotFound = ''Position not found''"

definition msgVolumeTooSmall :: string where
  "msgVolumeTooSmall = ''Volume too small to open''"

definition msgCopyOpenError :: string where
  "msgCopyOpenError = ''Error copying the open''"

definition msgCancelTimerError :: string where
  "msgCancelTimerError = ''Error in the cancel timer''"

section \<open>The cancellation timer of a signal-driven open\<close>

text \<open>
  \<open>signals.ts\<close>, the callback that \<open>handleTradeSignal\<close> hands to \<open>setTimeout\<close> after
  \<open>result.success\<close>: it asks the client whether a position is open for the symbol and,
  when none is, cancels all orders of the symbol. An error of either call is logged.
\<close>

definition cancelTimerFire :: "client \<Rightarrow> string \<Rightarrow> string \<Rightarrow> effect list" where
  "cancelTimerFire cl accountId fullSymbol =
     (case c_hasOpenPosition cl fullSymbol of
        Inl err \<Rightarrow> [LogError accountId msgCancelTimerError]
      | Inr hasPos \<Rightarrow>
          (if \<not> hasPos then
             (case c_cancelAllOrders cl fullSymbol of
                Inl err \<Rightarrow> [CancelAllOrders accountId fullSymbol,
                             LogError accountId msgCancelTimerError]
              | Inr ok \<Rightarrow> [CancelAllOrders accountId fullSymbol])
           else []))"

section \<open>Configuration: accounts and settings\<close>

text \<open>\<open>types.ts\<close>, \<open>AccountConfig\<close> and \<open>CopyTradingSettings\<close>.\<close>

record account =
  acc_id :: string
  acc_name :: string
  authToken :: string
  proxyUrl :: "string option"
  enabled :: bool
  isMaster :: bool
  maxPositionUsd :: real
  leverageMin :: real
  leverageMax :: real
  lastBalance :: "real option"
  lastUpdated :: "string option"

record settings =
  delayMinMs :: real
  delayMaxMs :: real
  priceDeviationPercent :: real
  leverageSpread :: real
  copyOpenPositions :: bool
  copyClosePositions :: bool
  copyTpSl :: bool
  signalsEnabled :: bool
  signalEntryOffset :: real
  signalTpOffset :: real
  signalCancelTimeMin :: real
  signalCancelTimeMax :: real

text \<open>\<open>storage.ts\<close>, the readers of \<open>ConfigStorage\<close> over the list \<open>config.accounts\<close>.\<close>

definition getEnabledAccounts :: "account list \<Rightarrow> account list" where
  "getEnabledAccounts accounts = filter (\<lambda>a. enabled a) accounts"

definition getMasterAccount :: "account list \<Rightarrow> account option" where
  "getMasterAccount accounts = find (\<lambda>a. isMaster a \<and> enabled a) accounts"

definition getSlaveAccounts :: "account list \<Rightarrow> account list" where
  "getSlaveAccounts accounts = filter (\<lambda>a. \<not> isMaster a \<and> enabled a) accounts"

definition getAccountById :: "account list \<Rightarrow> string \<Rightarrow> account option" where
  "getAccountById accounts ident = find (\<lambda>a. acc_id a = ident) accounts"

text \<open>
  \<open>Array.prototype.findIndex\<close>: the index of the first element that satisfies the
  test, or nothing (\<open>-1\<close> in the source).
\<close>

fun findIndex :: "('a \<Rightarrow> bool) \<Rightarrow> 'a list \<Rightarrow> nat option" where
  "findIndex P [] = None"
| "findIndex P (x # xs) =
     (if P x then Some 0 else (case findIndex P xs of None \<Rightarrow> None | Some i \<Rightarrow> Some (Suc i)))"

text \<open>
  \<open>ConfigStorage.addAccount\<close>. The argument has every field but the id; the id is
  \<open>uuidv4()\<close>, here the argument \<open>uuid\<close>. The new roster and the new account are
  returned.
\<close>

definition addAccount :: "string \<Rightarrow> account \<Rightarrow> account list \<Rightarrow> account list \<times> account" where
  "addAccount uuid acc accounts =
     (let newAccount = acc\<lparr>acc_id := uuid\<rparr>;
          newAccount = (if length accounts = 0 then newAccount\<lparr>isMaster := True\<rparr> else newAccount)
      in (accounts @ [newAccount], newAccount))"

text \<open>
  \<open>ConfigStorage.updateAccount(id, updates)\<close>. \<open>updates\<close> is a \<open>Partial<AccountConfig>\<close>:
  each field is present (\<open>Some\<close>) or absent.
\<close>

record account_updates =
  u_id :: "string option"
  u_name :: "string option"
  u_authToken :: "string option"
  u_proxyUrl :: "string option option"
  u_enabled :: "bool option"
  u_isMaster :: "bool option"
  u_maxPositionUsd :: "real option"
  u_leverageMin :: "real option"
  u_leverageMax :: "real option"
  u_lastBalance :: "real option option"
  u_lastUpdated :: "string option option"

definition orElse :: "'a option \<Rightarrow> 'a \<Rightarrow> 'a" where
  "orElse u old = (case u of None \<Rightarrow> old | Some v \<Rightarrow> v)"

definition applyUpdates :: "account \<Rightarrow> account_updates \<Rightarrow> account" where
  "applyUpdates a u =
     \<lparr>acc_id = orElse (u_id u) (acc_id a),
      acc_name = orElse (u_name u) (acc_name a),
      authToken = orElse (u_authToken u) (authToken a),
      proxyUrl = orElse (u_proxyUrl u) (proxyUrl a),
      enabled = orElse (u_enabled u) (enabled a),
      isMaster = orElse (u_isMaster u) (isMaster a),
      maxPositionUsd = orElse (u_maxPositionUsd u) (maxPositionUsd a),
      leverageMin = orElse (u_leverageMin u) (leverageMin a),
      leverageMax = orElse (u_leverageMax u) (leverageMax a),
      lastBalance = orElse (u_lastBalance u) (lastBalance a),
      lastUpdated = orElse (u_lastUpdated u) (lastUpdated a)\<rparr>"

definition updateAccount ::
  "string \<Rightarrow> account_updates \<Rightarrow> account list \<Rightarrow> account list \<times> account option"
where
  "updateAccount ident updates accounts =
     (case findIndex (\<lambda>a. acc_id a = ident) accounts of
        None \<Rightarrow> (accounts, None)
      | Some index \<Rightarrow>
          (let accounts1 =
                 (if u_isMaster updates = Some True
                  then map (\<lambda>a. if acc_id a \<noteq> ident then a\<lparr>isMaster := False\<rparr> else a) accounts
                  else accounts);
               accounts2 = accounts1[index := applyUpdates (accounts1 ! index) updates]
           in (accounts2, Some (accounts2 ! index))))"

text \<open>
  \<open>ConfigStorage.deleteAccount(id)\<close>: \<open>splice(index, 1)\<close>, then the first account left
  becomes master when the deleted one was.
\<close>

definition deleteAccount :: "string \<Rightarrow> account list \<Rightarrow> account list \<times> bool" where
  "deleteAccount ident accounts =
     (case findIndex (\<lambda>a. acc_id a = ident) accounts of
        None \<Rightarrow> (accounts, False)
      | Some index \<Rightarrow>
          (let wasMaster = isMaster (accounts ! index);
               accounts1 = take index accounts @ drop (Suc index) accounts;
               accounts2 =
                 (if wasMaster \<and> 0 < length accounts1
                  then accounts1[0 := (accounts1 ! 0)\<lparr>isMaster := True\<rparr>]
                  else accounts1)
           in (accounts2, True)))"

definition setMasterAccount :: "string \<Rightarrow> account list \<Rightarrow> account list \<times> bool" where
  "setMasterAccount ident accounts =
     (case getAccountById accounts ident of
        None \<Rightarrow> (accounts, False)
      | Some account \<Rightarrow> (map (\<lambda>a. a\<lparr>isMaster := (acc_id a = ident)\<rparr>) accounts, True))"

text \<open>The number of accounts that carry the master flag.\<close>

definition masterCount :: "account list \<Rightarrow> nat" where
  "masterCount accounts = length (filter isMaster accounts)"

section \<open>The watcher of the master's positions\<close>

text \<open>
  \<open>copyTrader.ts\<close>, \<open>CopyTradingEngine.checkMasterChanges\<close>: one polling tick.
  \<open>clients\<close> is the client manager (account id to client), \<open>lastKnown\<close> the map
  \<open>lastKnownPositions\<close>. The tick returns the replications it starts, in order, and the
  map it leaves. \<open>copyOpenPosition\<close> and \<open>copyClosePosition\<close> handle the errors of their
  own bodies; the tick records that it called them.
\<close>

datatype replication = CopyOpen position | CopyClose position

definition samePair :: "position \<Rightarrow> position \<Rightarrow> bool" where
  "samePair pos p = (p_symbol p = p_symbol pos \<and> p_side p = p_side pos)"

definition checkMasterChanges ::
  "account list \<Rightarrow> (string \<rightharpoonup> client) \<Rightarrow> (string \<rightharpoonup> position list)
     \<Rightarrow> replication list \<times> (string \<rightharpoonup> position list)"
where
  "checkMasterChanges accounts clients lastKnown =
     (case getMasterAccount accounts of
        None \<Rightarrow> ([], lastKnown)
      | Some masterAccount \<Rightarrow>
          (case clients (acc_id masterAccount) of
             None \<Rightarrow> ([], lastKnown)
           | Some masterClient \<Rightarrow>
               (case c_getOpenPositions masterClient None of
                  Inl err \<Rightarrow> ([], lastKnown)
                | Inr currentPositions \<Rightarrow>
                    (let previousPositions =
                           (case lastKnown (acc_id masterAccount) of
                              None \<Rightarrow> [] | Some ps \<Rightarrow> ps);
                         opened = filter (\<lambda>pos. find (samePair pos) previousPositions = None)
                                    currentPositions;
                         closed = filter (\<lambda>prev. find (samePair prev) currentPositions = None)
                                    previousPositions
                     in (map CopyOpen opened @ map CopyClose closed,
                         lastKnown(acc_id masterAccount \<mapsto> currentPositions))))))"

section \<open>The signal parser\<close>

text \<open>
  \<open>signals.ts\<close>, \<open>parseTradeSignal\<close>. The three regular expressions are matched as
  \<open>String.prototype.match\<close> does without the \<open>g\<close> flag: at the leftmost position
  where the pattern matches. Under the flag \<open>i\<close> two characters match when their
  upper-case forms agree, and the class \<open>[A-Z0-9]\<close> holds the letters of both cases
  and the digits. In each pattern a greedy repetition is followed by a character outside
  the repeated class (or by the end of the pattern), so the longest run is the only run
  that can match. Texts are taken to be ASCII.
\<close>

definition isDigit :: "char \<Rightarrow> bool" where
  "isDigit c = (let n = (of_char c :: nat) in 48 \<le> n \<and> n \<le> 57)"

definition isAlnumCI :: "char \<Rightarrow> bool" where
  "isAlnumCI c = (let n = (of_char (upperChar c) :: nat) in (65 \<le> n \<and> n \<le> 90) \<or> isDigit c)"

text \<open>\<open>\s\<close>: tab, line feed, vertical tab, form feed, carriage return, space, no-break space.\<close>

definition isSpace :: "char \<Rightarrow> bool" where
  "isSpace c = (let n = (of_char c :: nat) in (9 \<le> n \<and> n \<le> 13) \<or> n = 32 \<or> n = 160)"

definition isDigitOrDot :: "char \<Rightarrow> bool" where
  "isDigitOrDot c = (isDigit c \<or> c = CHR ''.'')"

text \<open>A literal of a pattern, matched at the head of the text; the rest of the text is returned.\<close>

fun matchLiteralCI :: "string \<Rightarrow> string \<Rightarrow> string option" where
  "matchLiteralCI [] t = Some t"
| "matchLiteralCI (p # ps) [] = None"
| "matchLiteralCI (p # ps) (c # cs) =
     (if upperChar c = upperChar p then matchLiteralCI ps cs else None)"

text \<open>\<open>\s+\<close> at the head of the text.\<close>

definition matchSpaces1 :: "string \<Rightarrow> string option" where
  "matchSpaces1 t = (if takeWhile isSpace t = [] then None else Some (dropWhile isSpace t))"

text \<open>\<open>/#([A-Z0-9]+)_USDT/i\<close> at the head of the text; the group is returned.\<close>

definition matchSymbolHere :: "string \<Rightarrow> string option" where
  "matchSymbolHere t =
     (case matchLiteralCI ''#'' t of
        None \<Rightarrow> None
      | Some t1 \<Rightarrow>
          (let g = takeWhile isAlnumCI t1 in
           if g = [] then None
           else (case matchLiteralCI ''_USDT'' (dropWhile isAlnumCI t1) of
                   None \<Rightarrow> None
                 | Some t2 \<Rightarrow> Some g)))"

text \<open>
  \<open>/Price\s+DEX\s+\$([\d.]+)/i\<close> and \<open>/Price\s+MEXC\s+\$([\d.]+)/i\<close> at the head of
  the text, the label being \<open>DEX\<close> or \<open>MEXC\<close>; the group is returned.
\<close>

definition matchPriceHere :: "string \<Rightarrow> string \<Rightarrow> string option" where
  "matchPriceHere label t =
     (case matchLiteralCI ''Price'' t of None \<Rightarrow> None | Some t1 \<Rightarrow>
     (case matchSpaces1 t1 of None \<Rightarrow> None | Some t2 \<Rightarrow>
     (case matchLiteralCI label t2 of None \<Rightarrow> None | Some t3 \<Rightarrow>
     (case matchSpaces1 t3 of None \<Rightarrow> None | Some t4 \<Rightarrow>
     (case matchLiteralCI ''$'' t4 of None \<Rightarrow> None | Some t5 \<Rightarrow>
       (let g = takeWhile isDigitOrDot t5 in if g = [] then None else Some g))))))"

text \<open>The leftmost match: the pattern is tried at every position, from the left.\<close>

fun searchFrom :: "(string \<Rightarrow> 'a option) \<Rightarrow> string \<Rightarrow> 'a option" where
  "searchFrom m [] = m []"
| "searchFrom m (c # cs) = (case m (c # cs) of Some g \<Rightarrow> Some g | None \<Rightarrow> searchFrom m cs)"

text \<open>
  \<open>parseFloat\<close> on a string of digits and dots, which is all that the group
  \<open>([\d.]+)\<close> can hold: the digits before the first dot and the digits that follow it
  are read; when there are neither, the result is \<open>NaN\<close>, here \<open>None\<close>. The value is
  the decimal number itself, not its nearest floating-point number.
\<close>

definition digitsValue :: "string \<Rightarrow> nat" where
  "digitsValue ds = foldl (\<lambda>acc c. 10 * acc + (of_char c - 48)) 0 ds"

definition parseFloat :: "string \<Rightarrow> real option" where
  "parseFloat s =
     (let ip = takeWhile isDigit s;
          fp = (case dropWhile isDigit s of
                  [] \<Rightarrow> []
                | c # cs \<Rightarrow> if c = CHR ''.'' then takeWhile isDigit cs else [])
      in if ip = [] \<and> fp = [] then None
         else Some (of_nat (digitsValue ip) + of_nat (digitsValue fp) / 10 ^ length fp))"

record parsed_signal =
  sig_symbol :: string
  sig_fullSymbol :: string
  sig_entryPrice :: real
  sig_takeProfit :: real
  sig_side :: side

definition parseTradeSignal :: "string \<Rightarrow> parsed_signal option" where
  "parseTradeSignal txt =
     (case searchFrom matchSymbolHere txt of
        None \<Rightarrow> None
      | Some g \<Rightarrow>
          (let symbol = toUpperCase g in
           (case searchFrom (matchPriceHere ''DEX'') txt of
              None \<Rightarrow> None
            | Some dexGroup \<Rightarrow>
                (case searchFrom (matchPriceHere ''MEXC'') txt of
                   None \<Rightarrow> None
                 | Some mexcGroup \<Rightarrow>
                     (case parseFloat dexGroup of
                        None \<Rightarrow> None
                      | Some priceDex \<Rightarrow>
                          (case parseFloat mexcGroup of
                             None \<Rightarrow> None
                           | Some priceMexc \<Rightarrow>
                               (let upperText = toUpperCase txt;
                                    sd = (if includesStr upperText ''DOUBLE LONG'' \<or>
                                             includesStr upperText ''LONG'' then Long
                                          else if includesStr upperText ''DOUBLE SHORT'' \<or>
                                             includesStr upperText ''SHORT'' then Short
                                          else Short)
                                in Some \<lparr>sig_symbol = symbol,
                                         sig_fullSymbol = symbol @ ''_USDT'',
                                         sig_entryPrice = priceMexc,
                                         sig_takeProfit = priceDex,
                                         sig_side = sd\<rparr>)))))))"

section \<open>Batches over the accounts\<close>

text \<open>\<open>types.ts\<close>, \<open>TradeResult\<close> (without \<open>latencyMs\<close>, a reading of the clock).\<close>

record trade_result =
  tr_accountId :: string
  tr_accountName :: string
  tr_success :: bool
  tr_message :: string
  tr_orderId :: "string option"
  tr_executedPrice :: "real option"
  tr_executedVolume :: "jsnum option"
  tr_leverage :: "real option"

text \<open>The result pushed when no client exists and in every \<open>catch\<close> block.\<close>

definition failedResult :: "account \<Rightarrow> string \<Rightarrow> trade_result" where
  "failedResult account msg =
     \<lparr>tr_accountId = acc_id account, tr_accountName = acc_name account, tr_success = False,
      tr_message = msg, tr_orderId = None, tr_executedPrice = None,
      tr_executedVolume = None, tr_leverage = None\<rparr>"

text \<open>\<open>result.message || 'OK'\<close> and \<open>x || d\<close> on an optional number (0 is falsy).\<close>

definition messageOr :: "string option \<Rightarrow> string \<Rightarrow> string" where
  "messageOr m d = (case m of None \<Rightarrow> d | Some s \<Rightarrow> if s = [] then d else s)"

definition numOr :: "real option \<Rightarrow> real \<Rightarrow> real" where
  "numOr x d = (case x of None \<Rightarrow> d | Some v \<Rightarrow> if v = 0 then d else v)"

definition opposite :: "side \<Rightarrow> side" where
  "opposite s = (if s = Long then Short else Long)"

text \<open>
  The loop \<open>for (let i = 0; i < accounts.length; i++)\<close> (and \<open>for (const account of
  accounts)\<close>) that every batch runs. \<open>step i account n\<close> is the body for the account at
  index \<open>i\<close> when \<open>n\<close> random numbers have been drawn so far; it returns the results
  it pushes, what it does to the outside, and the new count of draws.
\<close>

fun forEachAccount ::
  "(nat \<Rightarrow> account \<Rightarrow> nat \<Rightarrow> 'r list \<times> effect list \<times> nat) \<Rightarrow> nat \<Rightarrow> account list \<Rightarrow> nat
     \<Rightarrow> 'r list \<times> effect list \<times> nat"
where
  "forEachAccount step i [] n = ([], [], n)"
| "forEachAccount step i (account # accounts) n =
     (case step i account n of
        (results, effects, n1) \<Rightarrow>
          (case forEachAccount step (Suc i) accounts n1 of
             (results', effects', n2) \<Rightarrow> (results @ results', effects @ effects', n2)))"

text \<open>
  \<open>roundToStep\<close> (\<open>helpers.ts\<close>). The function reads a number of decimals off the
  decimal notation of the step: the number of characters after the dot of
  \<open>step.toString()\<close>, or 0 when that text has no dot (as for a whole number, and for a
  step that is printed with an exponent, like \<open>1e-7\<close>). How a floating-point number is
  printed is outside this model, so that number is given by the argument \<open>decimalsOf\<close>.
  The rest is the source's: the nearest multiple of the step (\<open>Math.round(x)\<close> is
  \<open>\<lfloor>x + 1/2\<rfloor>\<close>), re-read through \<open>toFixed(decimals)\<close>, which rounds to that many
  decimals, a tie away from zero.
\<close>

definition toFixed :: "real \<Rightarrow> nat \<Rightarrow> real" where
  "toFixed x digits = sgn x * of_int \<lfloor>\<bar>x\<bar> * 10 ^ digits + 1 / 2\<rfloor> / 10 ^ digits"

definition roundToStep :: "(real \<Rightarrow> nat) \<Rightarrow> real \<Rightarrow> real \<Rightarrow> real" where
  "roundToStep decimalsOf v step =
     (if step \<le> 0 then v
      else (let decimals = min 10 (decimalsOf step);
                rounded = of_int \<lfloor>v / step + 1 / 2\<rfloor> * step
            in toFixed rounded decimals))"

subsection \<open>\<open>manualOpenPosition\<close>\<close>

record manual_open =
  mo_symbol :: string
  mo_side :: side
  mo_price :: real
  mo_positionSizeUsd :: real
  mo_leverage :: real
  mo_priceStep :: "real option"

text \<open>
  The parameters of the order for one account, as the body of the loop computes them
  before it calls the client: the sleep it makes first (if any), the order, the entry
  price before rounding, and the count of draws afterwards.
\<close>

definition manualOpenPlan ::
  "settings \<Rightarrow> (real \<Rightarrow> nat) \<Rightarrow> manual_open \<Rightarrow> real \<Rightarrow> real \<Rightarrow> (nat \<Rightarrow> real) \<Rightarrow> nat
     \<Rightarrow> account \<Rightarrow> nat \<Rightarrow> effect list \<times> open_params \<times> real \<times> nat"
where
  "manualOpenPlan st decimalsOf params contractSize priceStep rnd i account n =
     (let sleeps = (if \<not> isMaster account \<and> 0 < i
                    then [Sleep (randomDelay (delayMinMs st) (delayMaxMs st) (rnd n))]
                    else []);
          n1 = (if \<not> isMaster account \<and> 0 < i then Suc n else n);
          entryPrice = (if \<not> isMaster account
                        then applyPriceDeviation (mo_price params)
                               (priceDeviationPercent st) (mo_side params) (rnd n1)
                        else mo_price params);
          entryFactors = (if \<not> isMaster account
                          then [mo_price params,
                                deviationFactor (priceDeviationPercent st) (mo_side params)
                                  (rnd n1)]
                          else [mo_price params]);
          leverage = (if \<not> isMaster account
                      then randomLeverage (max 1 (mo_leverage params - leverageSpread st))
                             (min (mo_leverage params) (leverageMax account)) (rnd (Suc n1))
                      else mo_leverage params);
          n2 = (if \<not> isMaster account then Suc (Suc n1) else n1);
          maxPosUsd = min (mo_positionSizeUsd params) (maxPositionUsd account);
          volume = jsMax 1 (jsFloor (jsDivide maxPosUsd (entryFactors @ [contractSize])))
      in (sleeps,
          \<lparr>op_symbol = mo_symbol params, op_side = mo_side params,
           op_price = roundToStep decimalsOf entryPrice priceStep, op_volume = volume,
           op_leverage = leverage, op_takeProfit = None\<rparr>,
          entryPrice, n2))"

definition manualOpenAccount ::
  "settings \<Rightarrow> (string \<rightharpoonup> client) \<Rightarrow> (real \<Rightarrow> nat) \<Rightarrow> manual_open \<Rightarrow> real \<Rightarrow> real
     \<Rightarrow> (nat \<Rightarrow> real) \<Rightarrow> nat \<Rightarrow> account \<Rightarrow> nat \<Rightarrow> trade_result list \<times> effect list \<times> nat"
where
  "manualOpenAccount st clients decimalsOf params contractSize priceStep rnd i account n =
     (case clients (acc_id account) of
        None \<Rightarrow> ([failedResult account msgClientNotInitialised], [], n)
      | Some cl \<Rightarrow>
          (case manualOpenPlan st decimalsOf params contractSize priceStep rnd i account n of
             (sleeps, order, entryPrice, n2) \<Rightarrow>
               (case c_openPosition cl order of
                  Inl err \<Rightarrow>
                    ([failedResult account err],
                     sleeps @ [OpenPosition (acc_id account) order], n2)
                | Inr result \<Rightarrow>
                    ([\<lparr>tr_accountId = acc_id account, tr_accountName = acc_name account,
                       tr_success = sr_success result,
                       tr_message = messageOr (sr_message result) ''OK'',
                       tr_orderId = sr_orderId result, tr_executedPrice = Some entryPrice,
                       tr_executedVolume = Some (op_volume order),
                       tr_leverage = Some (op_leverage order)\<rparr>],
                     sleeps @ [OpenPosition (acc_id account) order], n2))))"

text \<open>
  \<open>manualOpenPosition\<close> and \<open>handleTradeSignal\<close> ask the client of the first account
  for the description of the contract (\<open>clientManager.getClient(accounts[0]?.id || '')\<close>).
\<close>

definition firstContractInfo ::
  "(string \<rightharpoonup> client) \<Rightarrow> account list \<Rightarrow> string \<Rightarrow> contract_info option"
where
  "firstContractInfo clients accounts symbol =
     (case (case accounts of [] \<Rightarrow> clients [] | a # rest \<Rightarrow> clients (acc_id a)) of
        None \<Rightarrow> None
      | Some cl \<Rightarrow> c_getContractInfo cl symbol)"

text \<open>\<open>contractSize\<close> and \<open>priceStep\<close> of \<open>manualOpenPosition\<close>.\<close>

definition contractSizeOf :: "contract_info option \<Rightarrow> real" where
  "contractSizeOf contractInfo = numOr (map_option ci_contractSize contractInfo) 1"

definition manualPriceStep :: "manual_open \<Rightarrow> contract_info option \<Rightarrow> real" where
  "manualPriceStep params contractInfo =
     numOr (mo_priceStep params) (numOr (map_option ci_priceStep contractInfo) (1 / 100000))"

definition manualOpenPosition ::
  "settings \<Rightarrow> account list \<Rightarrow> (string \<rightharpoonup> client) \<Rightarrow> (real \<Rightarrow> nat) \<Rightarrow> manual_open
     \<Rightarrow> (nat \<Rightarrow> real) \<Rightarrow> trade_result list \<times> effect list"
where
  "manualOpenPosition st allAccounts clients decimalsOf params rnd =
     (let accounts = getEnabledAccounts allAccounts;
          contractInfo = firstContractInfo clients accounts (mo_symbol params);
          contractSize = contractSizeOf contractInfo;
          priceStep = manualPriceStep params contractInfo
      in (case forEachAccount
                 (manualOpenAccount st clients decimalsOf params contractSize priceStep rnd)
                 0 accounts 0 of
            (results, effects, n) \<Rightarrow> (results, effects)))"

subsection \<open>\<open>setTpSlOnAll\<close>\<close>

definition truthyNum :: "real option \<Rightarrow> bool" where
  "truthyNum x = (case x of None \<Rightarrow> False | Some v \<Rightarrow> v \<noteq> 0)"

definition setTpSlPlan ::
  "settings \<Rightarrow> tpsl_params \<Rightarrow> (nat \<Rightarrow> real) \<Rightarrow> nat \<Rightarrow> account \<Rightarrow> nat
     \<Rightarrow> effect list \<times> tpsl_params \<times> nat"
where
  "setTpSlPlan st params rnd i account n =
     (let sleeps = (if 0 < i
                    then [Sleep (randomDelay (delayMinMs st) (delayMaxMs st) (rnd n))]
                    else []);
          n1 = (if 0 < i then Suc n else n);
          deviateTp = (\<not> isMaster account \<and> truthyNum (ts_takeProfit params));
          tp = (if deviateTp
                then map_option (\<lambda>v. applyPriceDeviation v (priceDeviationPercent st)
                                        (opposite (ts_side params)) (rnd n1))
                       (ts_takeProfit params)
                else ts_takeProfit params);
          n2 = (if deviateTp then Suc n1 else n1);
          deviateSl = (\<not> isMaster account \<and> truthyNum (ts_stopLoss params));
          sl = (if deviateSl
                then map_option (\<lambda>v. applyPriceDeviation v (priceDeviationPercent st)
                                        (ts_side params) (rnd n2))
                       (ts_stopLoss params)
                else ts_stopLoss params);
          n3 = (if deviateSl then Suc n2 else n2)
      in (sleeps,
          \<lparr>ts_symbol = ts_symbol params, ts_side = ts_side params,
           ts_takeProfit = tp, ts_stopLoss = sl\<rparr>,
          n3))"

definition setTpSlAccount ::
  "settings \<Rightarrow> (string \<rightharpoonup> client) \<Rightarrow> tpsl_params \<Rightarrow> (nat \<Rightarrow> real) \<Rightarrow> nat \<Rightarrow> account \<Rightarrow> nat
     \<Rightarrow> trade_result list \<times> effect list \<times> nat"
where
  "setTpSlAccount st clients params rnd i account n =
     (case clients (acc_id account) of
        None \<Rightarrow> ([], [], n)
      | Some cl \<Rightarrow>
          (case setTpSlPlan st params rnd i account n of
             (sleeps, request, n3) \<Rightarrow>
               (case c_setTpSl cl request of
                  Inl err \<Rightarrow>
                    ([failedResult account err],
                     sleeps @ [SetTpSl (acc_id account) request], n3)
                | Inr result \<Rightarrow>
                    ([\<lparr>tr_accountId = acc_id account, tr_accountName = acc_name account,
                       tr_success = tsr_success result,
                       tr_message = messageOr (tsr_message result) ''OK'',
                       tr_orderId = None, tr_executedPrice = None,
                       tr_executedVolume = None, tr_leverage = None\<rparr>],
                     sleeps @ [SetTpSl (acc_id account) request], n3))))"

definition setTpSlOnAll ::
  "settings \<Rightarrow> account list \<Rightarrow> (string \<rightharpoonup> client) \<Rightarrow> tpsl_params \<Rightarrow> (nat \<Rightarrow> real)
     \<Rightarrow> trade_result list \<times> effect list"
where
  "setTpSlOnAll st allAccounts clients params rnd =
     (case forEachAccount (setTpSlAccount st clients params rnd) 0
             (getEnabledAccounts allAccounts) 0 of
        (results, effects, n) \<Rightarrow> (results, effects))"

subsection \<open>\<open>manualClosePosition\<close>\<close>

record manual_close =
  mc_symbol :: string
  mc_price :: "real option"

text \<open>
  The close price of a position: \<open>params.price\<close> when it is truthy, else the current
  price, else the entry price of the position; deviated against the position's side for
  an account that is not master. Asking for the current price may throw.
\<close>

definition closePriceFor ::
  "settings \<Rightarrow> client \<Rightarrow> manual_close \<Rightarrow> (nat \<Rightarrow> real) \<Rightarrow> account \<Rightarrow> position \<Rightarrow> nat
     \<Rightarrow> string + real \<times> nat"
where
  "closePriceFor st cl params rnd account position n =
     (case (if truthyNum (mc_price params) then Inr (mc_price params)
            else c_getCurrentPrice cl (mc_symbol params)) of
        Inl err \<Rightarrow> Inl err
      | Inr price \<Rightarrow>
          (let closePrice0 = numOr price (p_entryPrice position)
           in if \<not> isMaster account
              then Inr (applyPriceDeviation closePrice0 (priceDeviationPercent st)
                          (opposite (p_side position)) (rnd n), Suc n)
              else Inr (closePrice0, n)))"

text \<open>
  The inner loop \<open>for (const position of positions)\<close>. An error thrown for a position
  ends the loop: the \<open>catch\<close> block of the account pushes one failed result after the
  results already pushed.
\<close>

fun closePositions ::
  "settings \<Rightarrow> client \<Rightarrow> manual_close \<Rightarrow> (nat \<Rightarrow> real) \<Rightarrow> account \<Rightarrow> position list \<Rightarrow> nat
     \<Rightarrow> trade_result list \<times> effect list \<times> nat"
where
  "closePositions st cl params rnd account [] n = ([], [], n)"
| "closePositions st cl params rnd account (position # positions) n =
     (case closePriceFor st cl params rnd account position n of
        Inl err \<Rightarrow> ([failedResult account err], [], n)
      | Inr (closePrice, n1) \<Rightarrow>
          (let order = \<lparr>cl_symbol = mc_symbol params, cl_side = p_side position,
                        cl_price = closePrice, cl_volume = p_volume position\<rparr>
           in (case c_closePosition cl order of
                 Inl err \<Rightarrow>
                   ([failedResult account err], [ClosePosition (acc_id account) order], n1)
               | Inr result \<Rightarrow>
                   (case closePositions st cl params rnd account positions n1 of
                      (results, effects, n2) \<Rightarrow>
                        (\<lparr>tr_accountId = acc_id account, tr_accountName = acc_name account,
                          tr_success = sr_success result,
                          tr_message = messageOr (sr_message result) ''OK'',
                          tr_orderId = sr_orderId result, tr_executedPrice = Some closePrice,
                          tr_executedVolume = Some (Fin (p_volume position)),
                          tr_leverage = None\<rparr> # results,
                         ClosePosition (acc_id account) order # effects, n2)))))"

definition manualCloseAccount ::
  "settings \<Rightarrow> (string \<rightharpoonup> client) \<Rightarrow> manual_close \<Rightarrow> (nat \<Rightarrow> real) \<Rightarrow> nat \<Rightarrow> account \<Rightarrow> nat
     \<Rightarrow> trade_result list \<times> effect list \<times> nat"
where
  "manualCloseAccount st clients params rnd i account n =
     (case clients (acc_id account) of
        None \<Rightarrow> ([], [], n)
      | Some cl \<Rightarrow>
          (let sleeps = (if 0 < i
                         then [Sleep (randomDelay (delayMinMs st) (delayMaxMs st) (rnd n))]
                         else []);
               n1 = (if 0 < i then Suc n else n)
           in (case c_getOpenPositions cl (Some (mc_symbol params)) of
                 Inl err \<Rightarrow> ([failedResult account err], sleeps, n1)
               | Inr positions \<Rightarrow>
                   (if length positions = 0
                    then ([failedResult account msgPositionNotFound], sleeps, n1)
                    else (case closePositions st cl params rnd account positions n1 of
                            (results, effects, n2) \<Rightarrow> (results, sleeps @ effects, n2))))))"

definition manualClosePosition ::
  "settings \<Rightarrow> account list \<Rightarrow> (string \<rightharpoonup> client) \<Rightarrow> manual_close \<Rightarrow> (nat \<Rightarrow> real)
     \<Rightarrow> trade_result list \<times> effect list"
where
  "manualClosePosition st allAccounts clients params rnd =
     (case forEachAccount (manualCloseAccount st clients params rnd) 0
             (getEnabledAccounts allAccounts) 0 of
        (results, effects, n) \<Rightarrow> (results, effects))"

subsection \<open>\<open>handleTradeSignal\<close>\<close>

text \<open>
  The body of the loop of \<open>handleTradeSignal\<close> (\<open>signals.ts\<close>). \<open>maxContracts\<close> is
  \<open>contractLimits[signal.fullSymbol] || 0\<close>. After a successful order the cancellation
  timer is armed with a delay drawn from the configured bounds, in milliseconds.
\<close>

definition signalPlan ::
  "settings \<Rightarrow> (real \<Rightarrow> nat) \<Rightarrow> parsed_signal \<Rightarrow> real \<Rightarrow> real \<Rightarrow> real \<Rightarrow> (nat \<Rightarrow> real)
     \<Rightarrow> account \<Rightarrow> nat \<Rightarrow> open_params \<times> real \<times> nat"
where
  "signalPlan st decimalsOf signal priceStep contractSize maxContracts rnd account n1 =
     (let entryPrice0 = sig_entryPrice signal * (1 + signalEntryOffset st / 100);
          takeProfit0 = sig_takeProfit signal * (1 + signalTpOffset st / 100);
          entryPrice = (if \<not> isMaster account
                        then applyPriceDeviation entryPrice0
                               (priceDeviationPercent st) (sig_side signal) (rnd n1)
                        else entryPrice0);
          entryFactors = (if \<not> isMaster account
                          then [sig_entryPrice signal, 1 + signalEntryOffset st / 100,
                                deviationFactor (priceDeviationPercent st) (sig_side signal)
                                  (rnd n1)]
                          else [sig_entryPrice signal, 1 + signalEntryOffset st / 100]);
          takeProfit = (if \<not> isMaster account
                        then applyPriceDeviation takeProfit0
                               (priceDeviationPercent st)
                               (opposite (sig_side signal)) (rnd (Suc n1))
                        else takeProfit0);
          n2 = (if \<not> isMaster account then Suc (Suc n1) else n1);
          leverage = randomLeverage (leverageMin account) (leverageMax account) (rnd n2);
          n3 = Suc n2;
          positionUsd = (if 0 < maxContracts
                         then min (maxPositionUsd account)
                                (maxContracts * contractSize * entryPrice)
                         else maxPositionUsd account);
          volume = jsMax 1 (jsFloor (jsDivide positionUsd (entryFactors @ [contractSize])))
      in (\<lparr>op_symbol = sig_fullSymbol signal, op_side = sig_side signal,
           op_price = roundToStep decimalsOf entryPrice priceStep,
           op_volume = volume, op_leverage = leverage,
           op_takeProfit = Some (roundToStep decimalsOf takeProfit priceStep)\<rparr>,
          entryPrice, n3))"

definition signalAccount ::
  "settings \<Rightarrow> (string \<rightharpoonup> client) \<Rightarrow> (real \<Rightarrow> nat) \<Rightarrow> parsed_signal \<Rightarrow> real \<Rightarrow> real
     \<Rightarrow> real \<Rightarrow> (nat \<Rightarrow> real) \<Rightarrow> nat \<Rightarrow> account \<Rightarrow> nat
     \<Rightarrow> trade_result list \<times> effect list \<times> nat"
where
  "signalAccount st clients decimalsOf signal priceStep contractSize maxContracts rnd i account n =
     (case clients (acc_id account) of
        None \<Rightarrow> ([failedResult account msgClientNotInitialised], [], n)
      | Some cl \<Rightarrow>
          (let sleeps = (if 0 < i
                         then [Sleep (randomDelay (delayMinMs st) (delayMaxMs st) (rnd n))]
                         else []);
               n1 = (if 0 < i then Suc n else n)
           in (case c_hasOpenPosition cl (sig_fullSymbol signal) of
                 Inl err \<Rightarrow> ([failedResult account err], sleeps, n1)
               | Inr hasPosition \<Rightarrow>
                   (if hasPosition then ([failedResult account msgAlreadyInPosition], sleeps, n1)
                    else
                      (case c_cancelAllOrders cl (sig_fullSymbol signal) of
                         Inl err \<Rightarrow>
                           ([failedResult account err],
                            sleeps @ [CancelAllOrders (acc_id account) (sig_fullSymbol signal)], n1)
                       | Inr cancelled \<Rightarrow>
                           (case signalPlan st decimalsOf signal priceStep contractSize
                                   maxContracts rnd account n1 of
                              (order, entryPrice, n3) \<Rightarrow>
                                (let before = sleeps @
                                       [CancelAllOrders (acc_id account) (sig_fullSymbol signal),
                                        OpenPosition (acc_id account) order]
                                 in (case c_openPosition cl order of
                                       Inl err \<Rightarrow> ([failedResult account err], before, n3)
                                     | Inr result \<Rightarrow>
                                         (let pushed =
                                                \<lparr>tr_accountId = acc_id account,
                                                 tr_accountName = acc_name account,
                                                 tr_success = sr_success result,
                                                 tr_message = messageOr (sr_message result) ''OK'',
                                                 tr_orderId = sr_orderId result,
                                                 tr_executedPrice = Some entryPrice,
                                                 tr_executedVolume = Some (op_volume order),
                                                 tr_leverage = Some (op_leverage order)\<rparr>
                                          in if sr_success result
                                             then ([pushed],
                                                   before @ [ArmCancelTimer (acc_id account)
                                                      (sig_fullSymbol signal)
                                                      (randomDelay (signalCancelTimeMin st * 1000)
                                                         (signalCancelTimeMax st * 1000) (rnd n3))],
                                                   Suc n3)
                                             else ([pushed], before, n3))))))))))"

text \<open>
  \<open>handleTradeSignal\<close>: \<open>None\<close> when it returns \<open>false\<close> (signals switched off, or no
  signal in the text). \<open>priceStep\<close> is \<open>priceStepFromText(text)\<close>, taken as an
  argument; \<open>contractLimits\<close> is the table of the configuration.
\<close>

definition handleTradeSignal ::
  "settings \<Rightarrow> account list \<Rightarrow> (string \<rightharpoonup> client) \<Rightarrow> (real \<Rightarrow> nat) \<Rightarrow> real
     \<Rightarrow> (string \<rightharpoonup> real) \<Rightarrow> string \<Rightarrow> (nat \<Rightarrow> real)
     \<Rightarrow> (trade_result list \<times> effect list) option"
where
  "handleTradeSignal st allAccounts clients decimalsOf priceStep contractLimits txt rnd =
     (if \<not> signalsEnabled st then None
      else (case parseTradeSignal txt of
              None \<Rightarrow> None
            | Some signal \<Rightarrow>
                (let accounts = getEnabledAccounts allAccounts in
                 if length accounts = 0 then Some ([], [])
                 else
                   (let contractInfo = firstContractInfo clients accounts (sig_fullSymbol signal);
                        contractSize = contractSizeOf contractInfo;
                        maxContracts = numOr (contractLimits (sig_fullSymbol signal)) 0
                    in (case forEachAccount
                               (signalAccount st clients decimalsOf signal priceStep contractSize
                                  maxContracts rnd)
                               0 accounts 0 of
                          (results, effects, n) \<Rightarrow> Some (results, effects))))))"

subsection \<open>\<open>copyOpenPosition\<close>\<close>

text \<open>
  The body of the loop of \<open>copyOpenPosition\<close> (\<open>copyTrader.ts\<close>), the replication of
  a position the master opened. It pushes no result; its failures are logged.
\<close>

definition copyOpenPlan ::
  "settings \<Rightarrow> (real \<Rightarrow> nat) \<Rightarrow> position \<Rightarrow> contract_info option \<Rightarrow> (nat \<Rightarrow> real)
     \<Rightarrow> account \<Rightarrow> nat \<Rightarrow> jsnum \<times> open_params \<times> nat"
where
  "copyOpenPlan st decimalsOf masterPosition contractInfo rnd account n1 =
     (let price = applyPriceDeviation (p_entryPrice masterPosition)
                    (priceDeviationPercent st) (p_side masterPosition) (rnd n1);
          leverage = randomLeverage (max 1 (leverageMin account))
                       (min (leverageMax account) (p_leverage masterPosition))
                       (rnd (Suc n1));
          n2 = Suc (Suc n1);
          positionUsd = min (maxPositionUsd account)
                          (p_margin masterPosition * p_leverage masterPosition);
          contractSize = contractSizeOf contractInfo;
          volume = jsFloor (jsDivide positionUsd
                              [p_entryPrice masterPosition,
                               deviationFactor (priceDeviationPercent st)
                                 (p_side masterPosition) (rnd n1),
                               contractSize])
      in (volume,
          \<lparr>op_symbol = p_symbol masterPosition, op_side = p_side masterPosition,
           op_price = roundToStep decimalsOf price
             (numOr (map_option ci_priceStep contractInfo) (1 / 100000)),
           op_volume = volume, op_leverage = leverage, op_takeProfit = None\<rparr>,
          n2))"

definition copyOpenAccount ::
  "settings \<Rightarrow> (string \<rightharpoonup> client) \<Rightarrow> (real \<Rightarrow> nat) \<Rightarrow> position \<Rightarrow> (nat \<Rightarrow> real)
     \<Rightarrow> nat \<Rightarrow> account \<Rightarrow> nat \<Rightarrow> unit list \<times> effect list \<times> nat"
where
  "copyOpenAccount st clients decimalsOf masterPosition rnd i account n =
     (let delay = randomDelay (delayMinMs st) (delayMaxMs st) (rnd n);
          n1 = Suc n
      in (case clients (acc_id account) of
            None \<Rightarrow> ([], [Sleep delay], n1)
          | Some cl \<Rightarrow>
              (case copyOpenPlan st decimalsOf masterPosition
                      (c_getContractInfo cl (p_symbol masterPosition)) rnd account n1 of
                 (volume, order, n2) \<Rightarrow>
                   (if jsLess volume 1
                    then ([], [Sleep delay, LogError (acc_id account) msgVolumeTooSmall], n2)
                    else
                      (case c_openPosition cl order of
                         Inl err \<Rightarrow>
                           ([], [Sleep delay, OpenPosition (acc_id account) order,
                                 LogError (acc_id account) msgCopyOpenError], n2)
                       | Inr result \<Rightarrow>
                           (if sr_success result
                            then ([], [Sleep delay, OpenPosition (acc_id account) order], n2)
                            else ([], [Sleep delay, OpenPosition (acc_id account) order,
                                       LogError (acc_id account)
                                         (''Open error: '' @
                                            (case sr_message result of
                                               None \<Rightarrow> ''undefined'' | Some m \<Rightarrow> m))],
                                  n2)))))))"

definition copyOpenPosition ::
  "settings \<Rightarrow> account list \<Rightarrow> (string \<rightharpoonup> client) \<Rightarrow> (real \<Rightarrow> nat) \<Rightarrow> position
     \<Rightarrow> (nat \<Rightarrow> real) \<Rightarrow> effect list"
where
  "copyOpenPosition st allAccounts clients decimalsOf masterPosition rnd =
     (if \<not> copyOpenPositions st then []
      else (let slaveAccounts = getSlaveAccounts allAccounts in
            if length slaveAccounts = 0 then []
            else (case forEachAccount
                         (copyOpenAccount st clients decimalsOf masterPosition rnd)
                         0 slaveAccounts 0 of
                    (results, effects, n) \<Rightarrow> effects)))"

section \<open>Notions used in the properties\<close>

text \<open>
  The iterations of the loop: for each account in turn, the index \<open>i\<close>, the account and
  the count of random numbers drawn before its iteration starts.
\<close>

fun accountRuns ::
  "(nat \<Rightarrow> account \<Rightarrow> nat \<Rightarrow> 'r list \<times> effect list \<times> nat) \<Rightarrow> nat \<Rightarrow> account list \<Rightarrow> nat
     \<Rightarrow> (nat \<times> account \<times> nat) list"
where
  "accountRuns step i [] n = []"
| "accountRuns step i (account # accounts) n =
     (i, account, n) # accountRuns step (Suc i) accounts (snd (snd (step i account n)))"

text \<open>The account that an effect is addressed to or logged for; a sleep has none.\<close>

fun effectAccount :: "effect \<Rightarrow> string option" where
  "effectAccount (Sleep ms) = None"
| "effectAccount (OpenPosition accountId order) = Some accountId"
| "effectAccount (ClosePosition accountId order) = Some accountId"
| "effectAccount (SetTpSl accountId request) = Some accountId"
| "effectAccount (CancelAllOrders accountId symbol) = Some accountId"
| "effectAccount (ArmCancelTimer accountId symbol delay) = Some accountId"
| "effectAccount (LogError accountId msg) = Some accountId"

text \<open>
  What the inner loop of \<open>manualClosePosition\<close> has to push for the positions of one
  account, position by position: when asking for the price or submitting the close order
  throws, one failed result with the error's message, and nothing after it; otherwise a
  result that carries the success flag of the answer, the price and the volume of the
  order, followed by what the remaining positions give.
\<close>

fun closeBlock ::
  "settings \<Rightarrow> client \<Rightarrow> manual_close \<Rightarrow> (nat \<Rightarrow> real) \<Rightarrow> account \<Rightarrow> position list \<Rightarrow> nat
     \<Rightarrow> trade_result list \<Rightarrow> bool"
where
  "closeBlock st cl params rnd account [] n blk = (blk = [])"
| "closeBlock st cl params rnd account (position # positions) n blk =
     (case closePriceFor st cl params rnd account position n of
        Inl err \<Rightarrow> blk = [failedResult account err]
      | Inr (closePrice, n1) \<Rightarrow>
          (case c_closePosition cl
                  \<lparr>cl_symbol = mc_symbol params, cl_side = p_side position,
                   cl_price = closePrice, cl_volume = p_volume position\<rparr> of
             Inl err \<Rightarrow> blk = [failedResult account err]
           | Inr result \<Rightarrow>
               (case blk of
                  [] \<Rightarrow> False
                | r # rest \<Rightarrow>
                    tr_accountId r = acc_id account
                  \<and> tr_success r = sr_success result
                  \<and> tr_message r = messageOr (sr_message result) ''OK''
                  \<and> tr_executedPrice r = Some closePrice
                  \<and> tr_executedVolume r = Some (Fin (p_volume position))
                  \<and> closeBlock st cl params rnd account positions n1 rest)))"

text \<open>
  The orders for new positions among the effects of a run, with the account each is
  submitted for, and their volumes.
\<close>

fun openOrders :: "effect list \<Rightarrow> (string \<times> open_params) list" where
  "openOrders [] = []"
| "openOrders (OpenPosition accountId order # es) = (accountId, order) # openOrders es"
| "openOrders (e # es) = openOrders es"


fun openVolumes :: "effect list \<Rightarrow> jsnum list" where
  "openVolumes [] = []"
| "openVolumes (OpenPosition accountId order # es) = op_volume order # openVolumes es"
| "openVolumes (e # es) = openVolumes es"

section \<open>Concrete configurations for the examples\<close>

text \<open>\<open>storage.ts\<close>, \<open>DEFAULT_SETTINGS\<close>.\<close>

definition DEFAULT_SETTINGS :: settings where
  "DEFAULT_SETTINGS =
     \<lparr>delayMinMs = 0, delayMaxMs = 1000, priceDeviationPercent = 1, leverageSpread = 10,
      copyOpenPositions = True, copyClosePositions = True, copyTpSl = True,
      signalsEnabled = True, signalEntryOffset = - (1 / 2), signalTpOffset = 1,
      signalCancelTimeMin = 60, signalCancelTimeMax = 180\<rparr>"

text \<open>
  An enabled account with position limit 100 and leverage range 10 to 20, as
  \<open>importFromEnvFormat\<close> creates them.
\<close>

definition demoAccount :: "string \<Rightarrow> bool \<Rightarrow> account" where
  "demoAccount ident master =
     \<lparr>acc_id = ident, acc_name = ident, authToken = ''WEB'', proxyUrl = None, enabled = True,
      isMaster = master, maxPositionUsd = 100, leverageMin = 10, leverageMax = 20,
      lastBalance = None, lastUpdated = None\<rparr>"

chapter \<open>Properties\<close>

section \<open>Price deviation stays inside its band\<close>

lemma deviation_fraction_bounds:
  fixes d r :: real
  assumes "0 \<le> d" "0 \<le> r" "r < 1"
  shows "0 \<le> r * d / 100" and "r * d / 100 \<le> d / 100"
proof -
  show "0 \<le> r * d / 100" using assms by simp
  have "r * d \<le> 1 * d" using assms by (intro mult_right_mono) auto
  then show "r * d / 100 \<le> d / 100" by simp
qed

text \<open>
  C8. For a base price \<open>p > 0\<close>, a deviation bound \<open>d \<ge> 0\<close> and a draw \<open>r\<close> in
  \<open>[0, 1)\<close>, \<open>applyPriceDeviation\<close> with direction long returns a price in
  \<open>[p, p * (1 + d / 100)]\<close> and with direction short a price in
  \<open>[p * (1 - d / 100), p]\<close>.
\<close>

theorem applyPriceDeviation_bounds:
  assumes "0 < p" and "0 \<le> d" and "0 \<le> r" and "r < 1"
  shows "p \<le> applyPriceDeviation p d Long r
       \<and> applyPriceDeviation p d Long r \<le> p * (1 + d / 100)
       \<and> p * (1 - d / 100) \<le> applyPriceDeviation p d Short r
       \<and> applyPriceDeviation p d Short r \<le> p"
proof -
  have lo: "0 \<le> r * d / 100" and hi: "r * d / 100 \<le> d / 100"
    using deviation_fraction_bounds [OF assms(2-4)] by auto
  have p0: "0 \<le> p" using assms(1) by simp
  have a: "p * 1 \<le> p * (1 + r * d / 100)"
    by (rule mult_left_mono [OF _ p0]) (use lo in simp)
  have b: "p * (1 + r * d / 100) \<le> p * (1 + d / 100)"
    by (rule mult_left_mono [OF _ p0]) (use hi in simp)
  have c: "p * (1 - d / 100) \<le> p * (1 - r * d / 100)"
    by (rule mult_left_mono [OF _ p0]) (use hi in simp)
  have e: "p * (1 - r * d / 100) \<le> p * 1"
    by (rule mult_left_mono [OF _ p0]) (use lo in simp)
  show ?thesis
    using a b c e by (simp add: applyPriceDeviation_def)
qed

theorem applyPriceDeviation_bounds_witness:
  "100 \<le> applyPriceDeviation 100 1 Long (1 / 2)
   \<and> applyPriceDeviation 100 1 Long (1 / 2) \<le> 100 * (1 + 1 / 100)
   \<and> 100 * (1 - 1 / 100) \<le> applyPriceDeviation 100 1 Short (1 / 2)
   \<and> applyPriceDeviation 100 1 Short (1 / 2) \<le> 100"
  using applyPriceDeviation_bounds [of 100 1 "1 / 2"] by simp

section \<open>\<open>submitOrder\<close>: one retry, on a rate-limit failure only\<close>

lemma submitOrder_from_1:
  "submitOrder_from sdk r params 1 =
     (case sdk 1 of
        Returns res \<Rightarrow>
          (if (case res of None \<Rightarrow> False | Some x \<Rightarrow> res_success x = Some False) then
             (\<lparr>sr_success = False, sr_orderId = None,
               sr_message = jsOr (case res of None \<Rightarrow> None | Some x \<Rightarrow> res_message x)
                                 (Some ''Unknown error'')\<rparr>,
              [SdkSubmit params])
           else
             (\<lparr>sr_success = True,
               sr_orderId = (case res of None \<Rightarrow> None
                             | Some x \<Rightarrow> jsOr (res_data_orderId x) (res_orderId x)),
               sr_message = None\<rparr>,
              [SdkSubmit params]))
      | Throws msg \<Rightarrow>
          (\<lparr>sr_success = False, sr_orderId = None, sr_message = Some msg\<rparr>,
           [SdkSubmit params]))"
  by (subst submitOrder_from.simps) (simp split: sdk_outcome.splits)

text \<open>
  C9. \<open>submitOrder\<close> calls the exchange a second time exactly when the first call threw
  an error that is classified as rate limiting, and then only after a sleep of
  \<open>500 + r * 700\<close> milliseconds, which lies in \<open>[500, 1200)\<close>. Whatever the last call
  made does is returned at once: a thrown error (also a second rate-limit error) and a
  response with \<open>success === false\<close> give \<open>{success: false, message}\<close>, any other
  response gives \<open>{success: true, orderId}\<close> with the response's order id.
\<close>

theorem submitOrder_retry:
  assumes run: "submitOrder sdk r params = (result, events)"
    and r: "0 \<le> r" "r < 1"
  shows "((\<exists>msg. sdk 0 = Throws msg \<and> isRateLimit msg) \<longleftrightarrow>
            events = [SdkSubmit params, SleepMs (500 + r * 700), SdkSubmit params])
       \<and> (\<not> (\<exists>msg. sdk 0 = Throws msg \<and> isRateLimit msg) \<longleftrightarrow> events = [SdkSubmit params])
       \<and> 500 \<le> 500 + r * 700 \<and> 500 + r * 700 < 1200
       \<and> (let final = (if \<exists>msg. sdk 0 = Throws msg \<and> isRateLimit msg then sdk 1 else sdk 0) in
            (\<forall>msg. final = Throws msg \<longrightarrow>
               result = \<lparr>sr_success = False, sr_orderId = None, sr_message = Some msg\<rparr>)
          \<and> (\<forall>x. final = Returns (Some x) \<and> res_success x = Some False \<longrightarrow>
               result = \<lparr>sr_success = False, sr_orderId = None,
                          sr_message = jsOr (res_message x) (Some ''Unknown error'')\<rparr>)
          \<and> (\<forall>x. final = Returns (Some x) \<and> res_success x \<noteq> Some False \<longrightarrow>
               result = \<lparr>sr_success = True,
                          sr_orderId = jsOr (res_data_orderId x) (res_orderId x),
                          sr_message = None\<rparr>)
          \<and> (final = Returns None \<longrightarrow>
               result = \<lparr>sr_success = True, sr_orderId = None, sr_message = None\<rparr>))"
proof (cases "\<exists>msg. sdk 0 = Throws msg \<and> isRateLimit msg")
  case True
  then obtain msg where m: "sdk 0 = Throws msg" "isRateLimit msg" by blast
  have unf: "submitOrder sdk r params =
      (fst (submitOrder_from sdk r params 1),
       SdkSubmit params # SleepMs (500 + r * 700) # snd (submitOrder_from sdk r params 1))"
    unfolding submitOrder_def
    by (subst submitOrder_from.simps) (simp add: m split_beta)
  have ev1: "snd (submitOrder_from sdk r params 1) = [SdkSubmit params]"
    by (simp add: submitOrder_from_1 split: sdk_outcome.splits)
  have res: "result = fst (submitOrder_from sdk r params 1)"
    and ev: "events = [SdkSubmit params, SleepMs (500 + r * 700), SdkSubmit params]"
    using run unf ev1 by auto
  have bk: "500 \<le> 500 + r * 700 \<and> 500 + r * 700 < 1200" using r by simp
  show ?thesis
    using True ev bk
    by (auto simp: res submitOrder_from_1 Let_def split: sdk_outcome.splits option.splits)
next
  case False
  have unf: "submitOrder sdk r params =
     (case sdk 0 of
        Returns res \<Rightarrow>
          (if (case res of None \<Rightarrow> False | Some x \<Rightarrow> res_success x = Some False) then
             (\<lparr>sr_success = False, sr_orderId = None,
               sr_message = jsOr (case res of None \<Rightarrow> None | Some x \<Rightarrow> res_message x)
                                 (Some ''Unknown error'')\<rparr>,
              [SdkSubmit params])
           else
             (\<lparr>sr_success = True,
               sr_orderId = (case res of None \<Rightarrow> None
                             | Some x \<Rightarrow> jsOr (res_data_orderId x) (res_orderId x)),
               sr_message = None\<rparr>,
              [SdkSubmit params]))
      | Throws msg \<Rightarrow>
          (\<lparr>sr_success = False, sr_orderId = None, sr_message = Some msg\<rparr>,
           [SdkSubmit params]))"
    unfolding submitOrder_def using False
    by (subst submitOrder_from.simps) (auto split: sdk_outcome.splits)
  have bk: "500 \<le> 500 + r * 700 \<and> 500 + r * 700 < 1200" using r by simp
  show ?thesis
    using False bk run
    by (auto simp: unf Let_def split: sdk_outcome.splits option.splits if_splits)
qed

theorem submitOrder_retry_witness:
  "submitOrder
     (\<lambda>n. if n = 0 then Throws ''Request too frequent''
          else Returns (Some \<lparr>res_success = Some True, res_message = None,
                               res_data_orderId = Some ''42'', res_orderId = None\<rparr>))
     (1 / 2)
     \<lparr>o_symbol = ''BTC_USDT'', o_price = 101, o_vol = 1, o_side = 1, o_type = 1,
      o_openType = 1, o_leverage = 10, o_takeProfitPrice = None, o_stopLossPrice = None\<rparr>
   = (\<lparr>sr_success = True, sr_orderId = Some ''42'', sr_message = None\<rparr>,
      [SdkSubmit \<lparr>o_symbol = ''BTC_USDT'', o_price = 101, o_vol = 1, o_side = 1, o_type = 1,
         o_openType = 1, o_leverage = 10, o_takeProfitPrice = None, o_stopLossPrice = None\<rparr>,
       SleepMs 850,
       SdkSubmit \<lparr>o_symbol = ''BTC_USDT'', o_price = 101, o_vol = 1, o_side = 1, o_type = 1,
         o_openType = 1, o_leverage = 10, o_takeProfitPrice = None, o_stopLossPrice = None\<rparr>])"
  (is "submitOrder ?sdk ?r ?p = (?res, ?evs)")
proof -
  obtain result events where run: "submitOrder ?sdk ?r ?p = (result, events)"
    by (cases "submitOrder ?sdk ?r ?p") blast
  have rl: "isRateLimit ''Request too frequent''" by code_simp
  have ex: "\<exists>msg. ?sdk 0 = Throws msg \<and> isRateLimit msg" using rl by simp
  have tr: "truthy (Some ''42'')" by (simp add: truthy_def)
  note T = submitOrder_retry [OF run, of]
  have "events = ?evs" using T ex by simp
  moreover have "result = ?res" using T ex tr rl by (simp add: jsOr_def Let_def)
  ultimately show ?thesis using run by simp
qed

section \<open>\<open>getOpenPositions\<close> turns a failed query into an empty list\<close>

text \<open>
  C10. \<open>MexcClientWrapper.getOpenPositions\<close> never propagates an error: when the query
  to the exchange throws, it returns the empty list, which is also what it returns for
  an account that holds no position, so that the caller cannot tell the two apart;
  seen as methods of a client, \<open>getOpenPositions\<close> and \<open>hasOpenPosition\<close> never reject.
\<close>

theorem getOpenPositions_never_fails:
  assumes "sdk (if truthy symbol then symbol else None) = PositionsThrow err"
  shows "getOpenPositions sdk symbol = []
       \<and> (\<forall>sdk'. sdk' (if truthy symbol then symbol else None) = PositionsReturn (Some [])
             \<longrightarrow> getOpenPositions sdk' symbol = getOpenPositions sdk symbol)
       \<and> c_getOpenPositions (wrapperPositions sdk c) symbol = Inr []
       \<and> (\<forall>s. c_hasOpenPosition (wrapperPositions sdk c) s
               \<in> {Inr True, Inr False})"
  using assms by (auto simp: getOpenPositions_def wrapperPositions_def)

theorem getOpenPositions_never_fails_witness:
  "getOpenPositions (\<lambda>q. PositionsThrow ''socket hang up'') (Some ''BTC_USDT'') = []
   \<and> getOpenPositions (\<lambda>q. PositionsReturn (Some [])) (Some ''BTC_USDT'')
       = getOpenPositions (\<lambda>q. PositionsThrow ''socket hang up'') (Some ''BTC_USDT'')
   \<and> c_getOpenPositions (wrapperPositions (\<lambda>q. PositionsThrow ''socket hang up'') quietClient)
        (Some ''BTC_USDT'') = Inr []"
  using getOpenPositions_never_fails
    [of "\<lambda>q. PositionsThrow ''socket hang up''" "Some ''BTC_USDT''" "''socket hang up''" quietClient]
  by simp

section \<open>The cancellation timer cancels when no position is held\<close>

text \<open>
  The specification has the two cases of the timer the other way round. With a position
  of 5 contracts open for the symbol the timer does nothing; with no position open it
  cancels all orders of the symbol.
\<close>

theorem cancelTimerFire_contradicts_spec:
  "c_hasOpenPosition
     (wrapperPositions
        (\<lambda>q. PositionsReturn (Some [\<lparr>raw_symbol = ''BTC_USDT'', raw_positionType = 1,
            raw_holdVol = Some 5, raw_entryPrice = 101, raw_leverage = 10, raw_im = 50,
            raw_unrealisedPnl = 0, raw_liquidatePrice = None\<rparr>])) quietClient) ''BTC_USDT''
     = Inr True
   \<and> cancelTimerFire
     (wrapperPositions
        (\<lambda>q. PositionsReturn (Some [\<lparr>raw_symbol = ''BTC_USDT'', raw_positionType = 1,
            raw_holdVol = Some 5, raw_entryPrice = 101, raw_leverage = 10, raw_im = 50,
            raw_unrealisedPnl = 0, raw_liquidatePrice = None\<rparr>])) quietClient)
     ''acc-1'' ''BTC_USDT'' = []
   \<and> c_hasOpenPosition (wrapperPositions (\<lambda>q. PositionsReturn (Some [])) quietClient) ''BTC_USDT''
     = Inr False
   \<and> cancelTimerFire (wrapperPositions (\<lambda>q. PositionsReturn (Some [])) quietClient)
     ''acc-1'' ''BTC_USDT'' = [CancelAllOrders ''acc-1'' ''BTC_USDT'']"
  by (simp add: cancelTimerFire_def wrapperPositions_def hasOpenPosition_def getOpenPositions_def
      quietClient_def truthy_def)

text \<open>
  The handler arms the timer in the iteration of an account exactly when the order of
  that account succeeded, and arms it for that account and the symbol of the signal.
\<close>

lemma signalAccount_timer:
  "(\<exists>x symb delay. ArmCancelTimer x symb delay
        \<in> set (fst (snd (signalAccount st clients rts signal ps cs mx rnd i a n))))
     = (\<exists>r. fst (signalAccount st clients rts signal ps cs mx rnd i a n) = [r] \<and> tr_success r)"
  and signalAccount_timer_target: "ArmCancelTimer x symb delay
        \<in> set (fst (snd (signalAccount st clients rts signal ps cs mx rnd i a n)))
       \<Longrightarrow> x = acc_id a \<and> symb = sig_fullSymbol signal"
proof -
  let ?run = "signalAccount st clients rts signal ps cs mx rnd i a n"
  have both: "((\<exists>x symb delay. ArmCancelTimer x symb delay \<in> set (fst (snd ?run)))
                = (\<exists>r. fst ?run = [r] \<and> tr_success r))
            \<and> (\<forall>x symb delay. ArmCancelTimer x symb delay \<in> set (fst (snd ?run))
                  \<longrightarrow> x = acc_id a \<and> symb = sig_fullSymbol signal)"
  proof (cases "clients (acc_id a)")
    case None
    then show ?thesis by (simp add: signalAccount_def failedResult_def)
  next
    case (Some cl)
    show ?thesis
    proof (cases "c_hasOpenPosition cl (sig_fullSymbol signal)")
      case (Inl err)
      then show ?thesis using Some by (simp add: signalAccount_def Let_def failedResult_def)
    next
      case (Inr hasPosition)
      show ?thesis
      proof (cases hasPosition)
        case True
        then show ?thesis using Some Inr
          by (simp add: signalAccount_def Let_def failedResult_def)
      next
        case False
        show ?thesis
        proof (cases "c_cancelAllOrders cl (sig_fullSymbol signal)")
          case (Inl err)
          then show ?thesis using Some Inr False
            by (simp add: signalAccount_def Let_def failedResult_def)
        next
          case cancelled: (Inr b)
          obtain order ep n3 where
            plan: "signalPlan st rts signal ps cs mx rnd a (if 0 < i then Suc n else n)
                     = (order, ep, n3)"
            by (cases "signalPlan st rts signal ps cs mx rnd a (if 0 < i then Suc n else n)") auto
          show ?thesis
          proof (cases "c_openPosition cl order")
            case (Inl err)
            then show ?thesis using Some Inr False cancelled plan
              by (simp add: signalAccount_def Let_def failedResult_def)
          next
            case opened: (Inr result)
            then show ?thesis using Some Inr False cancelled plan
              by (cases "sr_success result") (simp_all add: signalAccount_def Let_def)
          qed
        qed
      qed
    qed
  qed
  show "(\<exists>x symb delay. ArmCancelTimer x symb delay \<in> set (fst (snd ?run)))
          = (\<exists>r. fst ?run = [r] \<and> tr_success r)"
    using both by blast
  show "ArmCancelTimer x symb delay \<in> set (fst (snd ?run))
          \<Longrightarrow> x = acc_id a \<and> symb = sig_fullSymbol signal"
    using both by blast
qed

text \<open>
  C1, as amended. The cancellation timer is armed for every account whose signal-driven
  open order succeeded, and for no other. When it fires, what it does depends on a fresh
  answer to whether the account holds an open position for the signal's symbol: if a
  position is held it does nothing further; if no position is held it cancels all
  outstanding orders of that symbol (and at most logs an error after that). It never
  submits a close order, nor an open order.
\<close>

theorem cancelTimerFire_spec:
  "((\<exists>x symb delay. ArmCancelTimer x symb delay
        \<in> set (fst (snd (signalAccount st clients decimalsOf signal priceStep contractSize
                            maxContracts rnd i a n))))
      = (\<exists>r. fst (signalAccount st clients decimalsOf signal priceStep contractSize
                    maxContracts rnd i a n) = [r] \<and> tr_success r))
 \<and> (\<forall>x symb delay. ArmCancelTimer x symb delay
        \<in> set (fst (snd (signalAccount st clients decimalsOf signal priceStep contractSize
                            maxContracts rnd i a n)))
      \<longrightarrow> x = acc_id a \<and> symb = sig_fullSymbol signal)
 \<and> (c_hasOpenPosition cl fullSymbol = Inr True \<longrightarrow> cancelTimerFire cl accountId fullSymbol = [])
 \<and> (c_hasOpenPosition cl fullSymbol = Inr False \<longrightarrow>
       hd (cancelTimerFire cl accountId fullSymbol) = CancelAllOrders accountId fullSymbol
     \<and> (\<forall>e \<in> set (cancelTimerFire cl accountId fullSymbol).
           e = CancelAllOrders accountId fullSymbol \<or> e = LogError accountId msgCancelTimerError))
 \<and> (\<forall>x p. ClosePosition x p \<notin> set (cancelTimerFire cl accountId fullSymbol))
 \<and> (\<forall>x p. OpenPosition x p \<notin> set (cancelTimerFire cl accountId fullSymbol))"
proof -
  have timer: "(c_hasOpenPosition cl fullSymbol = Inr True \<longrightarrow> cancelTimerFire cl accountId fullSymbol = [])
 \<and> (c_hasOpenPosition cl fullSymbol = Inr False \<longrightarrow>
       hd (cancelTimerFire cl accountId fullSymbol) = CancelAllOrders accountId fullSymbol
     \<and> (\<forall>e \<in> set (cancelTimerFire cl accountId fullSymbol).
           e = CancelAllOrders accountId fullSymbol \<or> e = LogError accountId msgCancelTimerError))
 \<and> (\<forall>x p. ClosePosition x p \<notin> set (cancelTimerFire cl accountId fullSymbol))
 \<and> (\<forall>x p. OpenPosition x p \<notin> set (cancelTimerFire cl accountId fullSymbol))"
    by (auto simp: cancelTimerFire_def split: sum.splits)
  show ?thesis
    using timer
      signalAccount_timer [of st clients decimalsOf signal priceStep contractSize
        maxContracts rnd i a n]
      signalAccount_timer_target [of _ _ _ st clients decimalsOf signal priceStep contractSize
        maxContracts rnd i a n]
    by blast
qed

theorem cancelTimerFire_spec_witness:
  "cancelTimerFire (quietClient\<lparr>c_hasOpenPosition := (\<lambda>s. Inr True)\<rparr>) ''acc-1'' ''BTC_USDT'' = []
   \<and> hd (cancelTimerFire quietClient ''acc-1'' ''BTC_USDT'') = CancelAllOrders ''acc-1'' ''BTC_USDT''"
  using cancelTimerFire_spec [where cl = "quietClient\<lparr>c_hasOpenPosition := (\<lambda>s. Inr True)\<rparr>"
      and fullSymbol = "''BTC_USDT''" and accountId = "''acc-1''"]
    cancelTimerFire_spec [where cl = quietClient and fullSymbol = "''BTC_USDT''"
      and accountId = "''acc-1''"]
  by (simp add: quietClient_def)

section \<open>The watcher's tick\<close>

text \<open>
  With a master account, its client and a list of positions fetched, the tick starts one
  open-replication for each fetched position whose (symbol, side) pair was not in the
  stored list, then one close-replication for each stored position whose pair is not in
  the fetched list, and stores the fetched list.
\<close>

lemma checkMasterChanges_fetched:
  assumes "getMasterAccount accounts = Some m" and "clients (acc_id m) = Some cl"
    and "c_getOpenPositions cl None = Inr cur"
    and "prev = (case lastKnown (acc_id m) of None \<Rightarrow> [] | Some ps \<Rightarrow> ps)"
  shows "checkMasterChanges accounts clients lastKnown =
     (map CopyOpen (filter (\<lambda>pos. \<not> (\<exists>p \<in> set prev. samePair pos p)) cur)
      @ map CopyClose (filter (\<lambda>old. \<not> (\<exists>p \<in> set cur. samePair old p)) prev),
      lastKnown(acc_id m \<mapsto> cur))"
proof -
  have a: "(find (samePair pos) ps = None) = (\<not> (\<exists>p \<in> set ps. samePair pos p))" for pos ps
    by (auto simp: find_None_iff)
  show ?thesis
    unfolding checkMasterChanges_def Let_def a
    using assms(1-3) by (simp add: assms(4))
qed

text \<open>
  A client whose \<open>getOpenPositions\<close> rejects leaves the tick without effect: this is
  the \<open>catch\<close> block of \<open>checkMasterChanges\<close>.
\<close>

lemma checkMasterChanges_rejected:
  assumes "getMasterAccount accounts = Some m" and "clients (acc_id m) = Some cl"
    and "c_getOpenPositions cl None = Inl err"
  shows "checkMasterChanges accounts clients lastKnown = ([], lastKnown)"
  using assms by (simp add: checkMasterChanges_def)

text \<open>
  C4. The claim asks that a failed fetch of the master's positions leave the stored
  snapshot unchanged and start no replication. The client of the repository never
  rejects: its \<open>getOpenPositions\<close> answers a failed query with the empty list. So with
  the position BTC_USDT/long stored and a query that throws, the tick starts a
  close-replication for BTC_USDT/long and replaces the stored snapshot by the empty list.
\<close>

theorem checkMasterChanges_failed_fetch:
  "checkMasterChanges
     [\<lparr>acc_id = ''m1'', acc_name = ''Master'', authToken = ''WEB'', proxyUrl = None,
       enabled = True, isMaster = True, maxPositionUsd = 100, leverageMin = 10,
       leverageMax = 20, lastBalance = None, lastUpdated = None\<rparr>]
     [''m1'' \<mapsto> wrapperPositions (\<lambda>q. PositionsThrow ''socket hang up'') quietClient]
     [''m1'' \<mapsto> [\<lparr>p_symbol = ''BTC_USDT'', p_side = Long, p_volume = 5, p_entryPrice = 101,
                    p_leverage = 10, p_margin = 50, p_unrealizedPnl = 0,
                    p_liquidationPrice = None\<rparr>]]
   = ([CopyClose \<lparr>p_symbol = ''BTC_USDT'', p_side = Long, p_volume = 5, p_entryPrice = 101,
                   p_leverage = 10, p_margin = 50, p_unrealizedPnl = 0,
                   p_liquidationPrice = None\<rparr>],
      [''m1'' \<mapsto> []])"
  by (simp add: checkMasterChanges_def getMasterAccount_def wrapperPositions_def
      getOpenPositions_def truthy_def samePair_def)

section \<open>The roster and its master flag\<close>

text \<open>
  C5. The claim asks that adding an account keep at most one master. \<open>addAccount\<close>
  stores the flag it is given and clears no other flag, unlike \<open>updateAccount\<close> and
  \<open>setMasterAccount\<close>. The handler that creates accounts passes
  \<open>isMaster: getAccounts().length === 1\<close>, so the second account of a roster arrives
  flagged: from a roster with one account, the master, the result has two masters.
\<close>

theorem addAccount_second_master:
  "masterCount
     [\<lparr>acc_id = ''id-1'', acc_name = ''Account 1'', authToken = ''WEB1'', proxyUrl = None,
       enabled = True, isMaster = True, maxPositionUsd = 100, leverageMin = 10,
       leverageMax = 20, lastBalance = None, lastUpdated = None\<rparr>] = 1
   \<and> masterCount (fst (addAccount ''id-2''
       \<lparr>acc_id = [], acc_name = ''Account 2'', authToken = ''WEB2'', proxyUrl = None,
        enabled = True, isMaster = True, maxPositionUsd = 100, leverageMin = 10,
        leverageMax = 20, lastBalance = None, lastUpdated = None\<rparr>
       [\<lparr>acc_id = ''id-1'', acc_name = ''Account 1'', authToken = ''WEB1'', proxyUrl = None,
         enabled = True, isMaster = True, maxPositionUsd = 100, leverageMin = 10,
         leverageMax = 20, lastBalance = None, lastUpdated = None\<rparr>])) = 2"
  by (simp add: masterCount_def addAccount_def Let_def)

text \<open>
  What does hold of the roster operations: the first account added is master; an account
  added without the flag to a roster that is not empty adds no master; deleting keeps
  at most one master and moves the flag to the first account left when the master is
  deleted; with distinct ids, \<open>setMasterAccount\<close> and \<open>updateAccount\<close> keep at most
  one master.
\<close>

lemma addAccount_first_is_master:
  "isMaster (snd (addAccount uuid acc [])) \<and> fst (addAccount uuid acc []) = [snd (addAccount uuid acc [])]"
  by (simp add: addAccount_def Let_def)

lemma addAccount_unflagged:
  assumes "masterCount accounts \<le> 1" and "accounts \<noteq> []" and "\<not> isMaster acc"
  shows "masterCount (fst (addAccount uuid acc accounts)) \<le> 1"
  using assms by (simp add: addAccount_def masterCount_def Let_def)

lemma findIndex_Some:
  "findIndex P xs = Some i \<Longrightarrow> i < length xs \<and> P (xs ! i) \<and> (\<forall>j < i. \<not> P (xs ! j))"
proof (induction xs arbitrary: i)
  case Nil
  then show ?case by simp
next
  case (Cons x xs)
  show ?case
  proof (cases "P x")
    case True
    with Cons.prems show ?thesis by simp
  next
    case False
    with Cons.prems obtain k where k: "findIndex P xs = Some k" "i = Suc k"
      by (auto split: option.splits)
    from Cons.IH [OF k(1)] False k(2) show ?thesis
      by (auto simp: nth_Cons split: nat.splits)
  qed
qed

lemma masterCount_remove:
  assumes "i < length xs"
  shows "masterCount (take i xs @ drop (Suc i) xs) =
         masterCount xs - (if isMaster (xs ! i) then 1 else 0)"
proof -
  have "xs = take i xs @ xs ! i # drop (Suc i) xs"
    using assms by (simp add: id_take_nth_drop)
  then have "masterCount xs = masterCount (take i xs @ xs ! i # drop (Suc i) xs)" by simp
  then show ?thesis by (simp add: masterCount_def)
qed

lemma masterCount_zero_set_head:
  assumes "masterCount xs = 0" and "xs \<noteq> []"
  shows "masterCount (xs[0 := (xs ! 0)\<lparr>isMaster := True\<rparr>]) = 1"
  using assms by (cases xs) (auto simp: masterCount_def split: if_splits)

lemma deleteAccount_keeps_one_master:
  assumes "masterCount accounts \<le> 1"
  shows "masterCount (fst (deleteAccount ident accounts)) \<le> 1"
proof (cases "findIndex (\<lambda>a. acc_id a = ident) accounts")
  case None
  then show ?thesis using assms by (simp add: deleteAccount_def)
next
  case (Some i)
  then have i: "i < length accounts" using findIndex_Some by fastforce
  let ?rest = "take i accounts @ drop (Suc i) accounts"
  show ?thesis
  proof (cases "isMaster (accounts ! i) \<and> ?rest \<noteq> []")
    case True
    then have "masterCount ?rest = 0"
      using masterCount_remove [OF i] assms by simp
    then have "masterCount (?rest[0 := (?rest ! 0)\<lparr>isMaster := True\<rparr>]) = 1"
      using True masterCount_zero_set_head by blast
    then show ?thesis using Some True by (simp add: deleteAccount_def Let_def)
  next
    case False
    have "masterCount ?rest \<le> 1" using masterCount_remove [OF i] assms by simp
    then show ?thesis using Some False by (auto simp: deleteAccount_def Let_def)
  qed
qed

lemma deleteAccount_master_moves:
  assumes "findIndex (\<lambda>a. acc_id a = ident) accounts = Some i"
    and "isMaster (accounts ! i)" and "1 < length accounts"
  shows "isMaster (hd (fst (deleteAccount ident accounts)))"
proof -
  have i: "i < length accounts" using assms(1) findIndex_Some by fastforce
  let ?rest = "take i accounts @ drop (Suc i) accounts"
  have ne: "?rest \<noteq> []" using assms(3) i by auto
  then have "isMaster (hd (?rest[0 := (?rest ! 0)\<lparr>isMaster := True\<rparr>]))"
    by (cases ?rest) auto
  then show ?thesis using assms(1,2) ne by (simp add: deleteAccount_def Let_def)
qed

lemma masterCount_by_id:
  assumes "distinct (map acc_id accounts)"
  shows "length (filter (\<lambda>a. acc_id a = ident) accounts) \<le> 1"
  using assms
proof (induction accounts)
  case Nil
  then show ?case by simp
next
  case (Cons a accounts)
  show ?case
  proof (cases "acc_id a = ident")
    case True
    then have "ident \<notin> acc_id ` set accounts" using Cons.prems by simp
    then have "\<forall>b \<in> set accounts. acc_id b \<noteq> ident" by blast
    then have "filter (\<lambda>a. acc_id a = ident) accounts = []" by (simp add: filter_empty_conv)
    then show ?thesis by simp
  next
    case False
    then show ?thesis using Cons by simp
  qed
qed

lemma setMasterAccount_keeps_one_master:
  assumes "distinct (map acc_id accounts)" and "masterCount accounts \<le> 1"
  shows "masterCount (fst (setMasterAccount ident accounts)) \<le> 1"
proof (cases "getAccountById accounts ident")
  case None
  then show ?thesis using assms(2) by (simp add: setMasterAccount_def)
next
  case (Some a)
  have "filter isMaster (map (\<lambda>a. a\<lparr>isMaster := (acc_id a = ident)\<rparr>) accounts)
        = map (\<lambda>a. a\<lparr>isMaster := (acc_id a = ident)\<rparr>) (filter (\<lambda>a. acc_id a = ident) accounts)"
    by (induction accounts) auto
  then show ?thesis
    using Some masterCount_by_id [OF assms(1), of ident]
    by (simp add: setMasterAccount_def masterCount_def)
qed

lemma masterCount_split:
  assumes "i < length xs"
  shows "masterCount xs = masterCount (take i xs) + (if isMaster (xs ! i) then 1 else 0)
           + masterCount (drop (Suc i) xs)"
proof -
  have "masterCount xs = masterCount (take i xs @ xs ! i # drop (Suc i) xs)"
    using assms by (simp add: id_take_nth_drop [symmetric])
  then show ?thesis by (simp add: masterCount_def)
qed

lemma masterCount_update:
  assumes "i < length xs"
  shows "masterCount (xs[i := y]) = masterCount (take i xs) + (if isMaster y then 1 else 0)
           + masterCount (drop (Suc i) xs)"
  using assms by (simp add: upd_conv_take_nth_drop masterCount_def)

lemma masterCount_only_at:
  assumes "\<forall>j < length xs. j \<noteq> i \<longrightarrow> \<not> isMaster (xs ! j)"
  shows "masterCount xs \<le> 1"
  using assms
proof (induction xs arbitrary: i)
  case Nil
  then show ?case by (simp add: masterCount_def)
next
  case (Cons x xs)
  show ?case
  proof (cases i)
    case 0
    have "\<not> isMaster (xs ! j)" if "j < length xs" for j
      using Cons.prems that 0 by (metis length_Cons nat.simps(3) not_less_eq nth_Cons_Suc)
    then have "filter isMaster xs = []" by (auto simp: filter_empty_conv in_set_conv_nth)
    then show ?thesis by (simp add: masterCount_def)
  next
    case (Suc k)
    have x: "\<not> isMaster x" using Cons.prems Suc by (metis length_Cons nat.simps(3) nth_Cons_0 zero_less_Suc)
    have "\<forall>j < length xs. j \<noteq> k \<longrightarrow> \<not> isMaster (xs ! j)"
      using Cons.prems Suc by (metis length_Cons nat.inject not_less_eq nth_Cons_Suc)
    from Cons.IH [OF this] x show ?thesis by (simp add: masterCount_def)
  qed
qed

lemma updateAccount_keeps_one_master:
  assumes "distinct (map acc_id accounts)" and "masterCount accounts \<le> 1"
  shows "masterCount (fst (updateAccount ident updates accounts)) \<le> 1"
proof (cases "findIndex (\<lambda>a. acc_id a = ident) accounts")
  case None
  then show ?thesis using assms(2) by (simp add: updateAccount_def)
next
  case (Some i)
  then have i: "i < length accounts" and idi: "acc_id (accounts ! i) = ident"
    using findIndex_Some by fastforce+
  show ?thesis
  proof (cases "u_isMaster updates = Some True")
    case True
    let ?cleared = "map (\<lambda>a. if acc_id a \<noteq> ident then a\<lparr>isMaster := False\<rparr> else a) accounts"
    let ?new = "?cleared[i := applyUpdates (?cleared ! i) updates]"
    have "\<not> isMaster (?new ! j)" if j: "j < length ?new" "j \<noteq> i" for j
    proof -
      have "acc_id (accounts ! j) \<noteq> acc_id (accounts ! i)"
        using assms(1) j i by (simp add: distinct_conv_nth)
      then show ?thesis using j idi by simp
    qed
    then have "masterCount ?new \<le> 1" using masterCount_only_at [of ?new i] by blast
    then show ?thesis using Some True by (simp add: updateAccount_def Let_def)
  next
    case False
    have m: "isMaster (applyUpdates (accounts ! i) updates) \<Longrightarrow> isMaster (accounts ! i)"
      using False by (cases "u_isMaster updates") (auto simp: applyUpdates_def orElse_def)
    have "masterCount (accounts[i := applyUpdates (accounts ! i) updates]) \<le> masterCount accounts"
      using m by (auto simp: masterCount_update [OF i] masterCount_split [OF i])
    then show ?thesis using Some False assms(2) by (simp add: updateAccount_def Let_def)
  qed
qed

section \<open>The signal parser on the specification's examples\<close>


lemma parseTradeSignal_without_dex:
  "parseTradeSignal ''#BTC_USDT Price MEXC $101 LONG'' = None"
  by code_simp

text \<open>
  C7. The claim asks that a signal be returned only when both labelled prices parse as
  finite positive numbers. \<open>parseTradeSignal\<close> rejects \<open>NaN\<close> only, where
  \<open>parseAlignSignal\<close> rejects every price that is not positive: a text whose two
  prices are \<open>$0\<close> is parsed to a signal with entry price 0 and take-profit 0.
\<close>

theorem parseTradeSignal_zero_price:
  "parseTradeSignal ''#BTC_USDT Price DEX $0 Price MEXC $0'' =
     Some \<lparr>sig_symbol = ''BTC'', sig_fullSymbol = ''BTC_USDT'', sig_entryPrice = 0,
            sig_takeProfit = 0, sig_side = Short\<rparr>"
  by code_simp

section \<open>Rounding to the price step\<close>

text \<open>
  With step \<open>0.01\<close> (printed \<open>0.01\<close>, two decimals) the price 100.126 is rounded to
  100.13. A step of \<open>0.0000001\<close> is printed \<open>1e-7\<close>, without a dot: the function then
  re-reads the rounded product with no decimals, and 0.1234 becomes 0.
\<close>

lemma roundToStep_examples:
  "roundToStep (\<lambda>step. 2) (100126 / 1000) (1 / 100) = 10013 / 100"
  "roundToStep (\<lambda>step. 0) (1234 / 10000) (1 / 10000000) = 0"
  "roundToStep (\<lambda>step. 0) (201 / 2) 1 = 101"
  "roundToStep (\<lambda>step. 0) (201 / 2) 0 = 201 / 2"
  by (simp_all add: roundToStep_def toFixed_def Let_def)

section \<open>The loop over the accounts\<close>

text \<open>
  What a batch pushes and does is the concatenation, in the order of the accounts, of
  what the body of the loop pushes and does for each account. A property that the body
  has for every index and every count of draws therefore holds block by block.
\<close>

lemma forEachAccount_effect_blocks:
  assumes "\<And>i a n. E a (fst (snd (step i a n)))"
  shows "\<exists>blocks. fst (snd (forEachAccount step i accs n)) = concat blocks
                   \<and> list_all2 E accs blocks"
proof (induction accs arbitrary: i n)
  case Nil
  show ?case by simp
next
  case (Cons a accs)
  obtain rs es n1 where s: "step i a n = (rs, es, n1)" by (cases "step i a n") auto
  obtain rs' es' n2 where l: "forEachAccount step (Suc i) accs n1 = (rs', es', n2)"
    by (cases "forEachAccount step (Suc i) accs n1") auto
  obtain blocks where b: "es' = concat blocks" "list_all2 E accs blocks"
    using Cons.IH [of "Suc i" n1] l by auto
  have "E a es" using assms [of a i n] s by simp
  then have "fst (snd (forEachAccount step i (a # accs) n)) = concat (es # blocks)
             \<and> list_all2 E (a # accs) (es # blocks)"
    using s l b by simp
  then show ?case by blast
qed

lemma forEachAccount_effects_all:
  assumes "\<And>i a n e. e \<in> set (fst (snd (step i a n))) \<Longrightarrow> Q e"
  shows "\<forall>e \<in> set (fst (snd (forEachAccount step i accs n))). Q e"
proof -
  obtain blocks where b: "fst (snd (forEachAccount step i accs n)) = concat blocks"
      "list_all2 (\<lambda>a es. \<forall>e \<in> set es. Q e) accs blocks"
    using forEachAccount_effect_blocks [of "\<lambda>a es. \<forall>e \<in> set es. Q e" step i accs n] assms
    by blast
  have "\<forall>e \<in> set (concat blocks). Q e"
    using b(2) by (induction rule: list_all2_induct) auto
  then show ?thesis using b(1) by simp
qed

text \<open>
  The same, with the iterations made explicit: what the batch pushes and does is the
  concatenation over \<open>accountRuns\<close> of what the body pushes and does in each iteration.
\<close>

lemma forEachAccount_Cons:
  "forEachAccount step i (a # accs) n =
     (fst (step i a n) @ fst (forEachAccount step (Suc i) accs (snd (snd (step i a n)))),
      fst (snd (step i a n))
        @ fst (snd (forEachAccount step (Suc i) accs (snd (snd (step i a n))))),
      snd (snd (forEachAccount step (Suc i) accs (snd (snd (step i a n))))))"
  by (simp split: prod.splits)

lemma accountRuns_accounts:
  "map (\<lambda>(j, a, m). a) (accountRuns step i accs n) = accs"
  by (induction accs arbitrary: i n) simp_all

lemma forEachAccount_runs_results:
  "fst (forEachAccount step i accs n)
     = concat (map (\<lambda>(j, a, m). fst (step j a m)) (accountRuns step i accs n))"
  by (induction accs arbitrary: i n) (simp_all add: forEachAccount_Cons del: forEachAccount.simps(2))

lemma forEachAccount_runs_effects:
  "fst (snd (forEachAccount step i accs n))
     = concat (map (\<lambda>(j, a, m). fst (snd (step j a m))) (accountRuns step i accs n))"
  by (induction accs arbitrary: i n) (simp_all add: forEachAccount_Cons del: forEachAccount.simps(2))

lemma forEachAccount_runs_single:
  assumes "\<And>i a n. \<exists>r. fst (step i a n) = [r] \<and> P i a n r"
  shows "list_all2 (\<lambda>(j, a, m) r. P j a m r) (accountRuns step i accs n)
           (fst (forEachAccount step i accs n))"
proof (induction accs arbitrary: i n)
  case Nil
  show ?case by simp
next
  case (Cons a accs)
  obtain r where r: "fst (step i a n) = [r]" "P i a n r" using assms by blast
  show ?case using r Cons.IH [of "Suc i" "snd (snd (step i a n))"]
    by (simp add: forEachAccount_Cons del: forEachAccount.simps(2))
qed

lemma forEachAccount_runs_optional:
  assumes "\<And>i a n. if C a then (\<exists>r. fst (step i a n) = [r] \<and> P i a n r)
                     else fst (step i a n) = []"
  shows "list_all2 (\<lambda>(j, a, m) r. P j a m r)
           (filter (\<lambda>(j, a, m). C a) (accountRuns step i accs n))
           (fst (forEachAccount step i accs n))"
proof (induction accs arbitrary: i n)
  case Nil
  show ?case by simp
next
  case (Cons a accs)
  show ?case
  proof (cases "C a")
    case True
    then obtain r where r: "fst (step i a n) = [r]" "P i a n r" using assms [of a i n] by auto
    show ?thesis using True r Cons.IH [of "Suc i" "snd (snd (step i a n))"]
      by (simp add: forEachAccount_Cons del: forEachAccount.simps(2))
  next
    case False
    then have "fst (step i a n) = []" using assms [of a i n] by simp
    then show ?thesis using False Cons.IH [of "Suc i" "snd (snd (step i a n))"]
      by (simp add: forEachAccount_Cons del: forEachAccount.simps(2))
  qed
qed

lemma runs_filter_accounts:
  "map (\<lambda>(j, a, m). f a) (filter (\<lambda>(j, a, m). C a) runs)
     = map f (filter C (map (\<lambda>(j, a, m). a) runs))"
  by (induction runs) auto

lemma list_all2_map_self:
  assumes "\<And>x. P x (f x)"
  shows "list_all2 P xs (map f xs)"
  by (induction xs) (simp_all add: assms)

lemma runs_blocks:
  assumes "\<And>i a n. Q i a n (f i a n)"
  shows "list_all2 (\<lambda>(i, a, n) blk. Q i a n blk) runs (map (\<lambda>(i, a, n). f i a n) runs)"
  by (induction runs) (auto simp: assms)

section \<open>One account of a batch\<close>

text \<open>The inner loop of \<open>manualClosePosition\<close>, one position at a time.\<close>

lemma closePositions_Cons:
  "closePositions st cl params rnd a (p # ps) n =
     (case closePriceFor st cl params rnd a p n of
        Inl err \<Rightarrow> ([failedResult a err], [], n)
      | Inr (closePrice, n1) \<Rightarrow>
          (case c_closePosition cl \<lparr>cl_symbol = mc_symbol params, cl_side = p_side p,
                        cl_price = closePrice, cl_volume = p_volume p\<rparr> of
             Inl err \<Rightarrow>
               ([failedResult a err],
                [ClosePosition (acc_id a) \<lparr>cl_symbol = mc_symbol params, cl_side = p_side p,
                        cl_price = closePrice, cl_volume = p_volume p\<rparr>], n1)
           | Inr result \<Rightarrow>
               (\<lparr>tr_accountId = acc_id a, tr_accountName = acc_name a,
                 tr_success = sr_success result,
                 tr_message = messageOr (sr_message result) ''OK'',
                 tr_orderId = sr_orderId result, tr_executedPrice = Some closePrice,
                 tr_executedVolume = Some (Fin (p_volume p)),
                 tr_leverage = None\<rparr> # fst (closePositions st cl params rnd a ps n1),
                ClosePosition (acc_id a) \<lparr>cl_symbol = mc_symbol params, cl_side = p_side p,
                        cl_price = closePrice, cl_volume = p_volume p\<rparr>
                  # fst (snd (closePositions st cl params rnd a ps n1)),
                snd (snd (closePositions st cl params rnd a ps n1)))))"
  by (simp add: Let_def split: sum.splits prod.splits)

declare closePositions.simps(2) [simp del]

lemma closePositions_ids:
  "\<forall>r \<in> set (fst (closePositions st cl params rnd a ps n)). tr_accountId r = acc_id a"
proof (induction ps arbitrary: n)
  case Nil
  show ?case by simp
next
  case (Cons p ps)
  show ?case
    unfolding closePositions_Cons
    using Cons.IH
    by (simp add: failedResult_def split: sum.splits prod.splits)
qed

lemma closePositions_nonempty:
  "ps \<noteq> [] \<Longrightarrow> fst (closePositions st cl params rnd a ps n) \<noteq> []"
  by (cases ps) (simp_all add: closePositions_Cons split: sum.splits prod.splits)

lemma closePositions_length:
  "length (fst (closePositions st cl params rnd a ps n)) \<le> length ps"
proof (induction ps arbitrary: n)
  case Nil
  show ?case by simp
next
  case (Cons p ps)
  show ?case
    unfolding closePositions_Cons using Cons.IH
    by (simp split: sum.splits prod.splits)
qed

lemma closePositions_all:
  assumes "\<forall>p. \<exists>res. c_closePosition cl p = Inr res"
    and "\<forall>s. \<exists>v. c_getCurrentPrice cl s = Inr v"
  shows "map tr_executedVolume (fst (closePositions st cl params rnd a ps n))
           = map (\<lambda>p. Some (Fin (p_volume p))) ps"
proof (induction ps arbitrary: n)
  case Nil
  show ?case by simp
next
  case (Cons p ps)
  obtain v where v: "(if truthyNum (mc_price params) then Inr (mc_price params)
            else c_getCurrentPrice cl (mc_symbol params)) = Inr v"
    using assms(2) by (metis (full_types))
  obtain cp n1 where cp: "closePriceFor st cl params rnd a p n = Inr (cp, n1)"
    unfolding closePriceFor_def v by (cases "isMaster a") (auto simp: Let_def)
  obtain res where res: "c_closePosition cl \<lparr>cl_symbol = mc_symbol params, cl_side = p_side p,
                        cl_price = cp, cl_volume = p_volume p\<rparr> = Inr res"
    using assms(1) by blast
  show ?case
    unfolding closePositions_Cons cp using res Cons.IH [of n1] by simp
qed

lemma closePositions_closeBlock:
  "closeBlock st cl params rnd a ps n (fst (closePositions st cl params rnd a ps n))"
proof (induction ps arbitrary: n)
  case Nil
  show ?case by simp
next
  case (Cons p ps)
  show ?case
    unfolding closePositions_Cons using Cons.IH
    by (simp split: sum.splits prod.splits)
qed

lemma manualCloseAccount_result:
  "(case clients (acc_id a) of
      None \<Rightarrow> fst (manualCloseAccount st clients params rnd i a n) = []
    | Some cl \<Rightarrow>
        fst (manualCloseAccount st clients params rnd i a n) \<noteq> []
      \<and> (\<forall>r \<in> set (fst (manualCloseAccount st clients params rnd i a n)).
            tr_accountId r = acc_id a)
      \<and> (case c_getOpenPositions cl (Some (mc_symbol params)) of
            Inl err \<Rightarrow> fst (manualCloseAccount st clients params rnd i a n) = [failedResult a err]
          | Inr ps \<Rightarrow>
              (if ps = []
               then fst (manualCloseAccount st clients params rnd i a n)
                      = [failedResult a msgPositionNotFound]
               else closeBlock st cl params rnd a ps (if 0 < i then Suc n else n)
                      (fst (manualCloseAccount st clients params rnd i a n)))
            \<and> length (fst (manualCloseAccount st clients params rnd i a n)) \<le> max 1 (length ps)
            \<and> ((\<forall>p. \<exists>res. c_closePosition cl p = Inr res)
                 \<and> (\<forall>s. \<exists>v. c_getCurrentPrice cl s = Inr v) \<and> ps \<noteq> [] \<longrightarrow>
                 map tr_executedVolume (fst (manualCloseAccount st clients params rnd i a n))
                   = map (\<lambda>p. Some (Fin (p_volume p))) ps)))"
proof (cases "clients (acc_id a)")
  case None
  then show ?thesis by (simp add: manualCloseAccount_def)
next
  case (Some cl)
  show ?thesis
  proof (cases "c_getOpenPositions cl (Some (mc_symbol params))")
    case (Inl err)
    then show ?thesis using Some
      by (simp add: manualCloseAccount_def Let_def failedResult_def)
  next
    case (Inr ps)
    show ?thesis
    proof (cases "ps = []")
      case True
      then show ?thesis using Some Inr
        by (simp add: manualCloseAccount_def Let_def failedResult_def)
    next
      case False
      define m where "m = (if 0 < i then Suc n else n)"
      have eq: "fst (manualCloseAccount st clients params rnd i a n)
                  = fst (closePositions st cl params rnd a ps m)"
        using Some Inr False
        by (simp add: manualCloseAccount_def Let_def m_def split: prod.splits)
      have ids: "\<forall>r \<in> set (fst (closePositions st cl params rnd a ps m)). tr_accountId r = acc_id a"
        by (rule closePositions_ids)
      have ne: "fst (closePositions st cl params rnd a ps m) \<noteq> []"
        using False by (rule closePositions_nonempty)
      have len: "length (fst (closePositions st cl params rnd a ps m)) \<le> max 1 (length ps)"
        using closePositions_length [where ps = ps and n = m and a = a and st = st and cl = cl
            and params = params and rnd = rnd] by simp
      have blk: "closeBlock st cl params rnd a ps m (fst (closePositions st cl params rnd a ps m))"
        by (rule closePositions_closeBlock)
      have vols: "map tr_executedVolume (fst (closePositions st cl params rnd a ps m))
                   = map (\<lambda>p. Some (Fin (p_volume p))) ps"
        if "\<forall>p. \<exists>res. c_closePosition cl p = Inr res" "\<forall>s. \<exists>v. c_getCurrentPrice cl s = Inr v"
        using that by (rule closePositions_all)
      show ?thesis
        using Some Inr False ids ne len vols blk unfolding eq m_def [symmetric] by simp
    qed
  qed
qed

text \<open>The result that \<open>manualOpenPosition\<close> and \<open>setTpSlOnAll\<close> push for an account.\<close>

lemma manualOpenAccount_result:
  "\<exists>r. fst (manualOpenAccount st clients dec params cs ps rnd i a n) = [r]
     \<and> tr_accountId r = acc_id a
     \<and> (case clients (acc_id a) of
          None \<Rightarrow> r = failedResult a msgClientNotInitialised
        | Some cl \<Rightarrow>
            (case c_openPosition cl (fst (snd (manualOpenPlan st dec params cs ps rnd i a n))) of
               Inl err \<Rightarrow> r = failedResult a err
             | Inr res \<Rightarrow> tr_success r = sr_success res
                        \<and> tr_message r = messageOr (sr_message res) ''OK''))"
proof (cases "clients (acc_id a)")
  case None
  then show ?thesis by (simp add: manualOpenAccount_def failedResult_def)
next
  case (Some cl)
  obtain sleeps order ep n2 where
    plan: "manualOpenPlan st dec params cs ps rnd i a n = (sleeps, order, ep, n2)"
    by (cases "manualOpenPlan st dec params cs ps rnd i a n") auto
  show ?thesis
  proof (cases "c_openPosition cl order")
    case (Inl err)
    then show ?thesis using Some plan by (simp add: manualOpenAccount_def failedResult_def)
  next
    case (Inr res)
    then show ?thesis using Some plan by (simp add: manualOpenAccount_def)
  qed
qed

lemma setTpSlAccount_result:
  "(case clients (acc_id a) of
      None \<Rightarrow> fst (setTpSlAccount st clients params rnd i a n) = []
    | Some cl \<Rightarrow>
        (\<exists>r. fst (setTpSlAccount st clients params rnd i a n) = [r]
          \<and> tr_accountId r = acc_id a
          \<and> (case c_setTpSl cl (fst (snd (setTpSlPlan st params rnd i a n))) of
               Inl err \<Rightarrow> r = failedResult a err
             | Inr res \<Rightarrow> tr_success r = tsr_success res
                        \<and> tr_message r = messageOr (tsr_message res) ''OK'')))"
proof (cases "clients (acc_id a)")
  case None
  then show ?thesis by (simp add: setTpSlAccount_def)
next
  case (Some cl)
  obtain sleeps request n3 where
    plan: "setTpSlPlan st params rnd i a n = (sleeps, request, n3)"
    by (cases "setTpSlPlan st params rnd i a n") auto
  show ?thesis
  proof (cases "c_setTpSl cl request")
    case (Inl err)
    then show ?thesis using Some plan by (simp add: setTpSlAccount_def failedResult_def)
  next
    case (Inr res)
    then show ?thesis using Some plan by (simp add: setTpSlAccount_def)
  qed
qed

section \<open>The results of a batch, account by account\<close>

text \<open>
  Two enabled accounts, the second without an initialised client (an account that is
  enabled after the start has none): \<open>setTpSlOnAll\<close> and \<open>manualClosePosition\<close>
  return a result for the first account only, where the claim asks for one per account.
\<close>

theorem batch_results_skip_accounts:
  "map acc_id (getEnabledAccounts [demoAccount ''a1'' True, demoAccount ''a2'' False])
     = [''a1'', ''a2'']
   \<and> map tr_accountId
     (fst (setTpSlOnAll DEFAULT_SETTINGS [demoAccount ''a1'' True, demoAccount ''a2'' False]
        [''a1'' \<mapsto> quietClient]
        \<lparr>ts_symbol = ''BTC_USDT'', ts_side = Long, ts_takeProfit = Some 110, ts_stopLoss = None\<rparr>
        (\<lambda>n. 1 / 2)))
     = [''a1'']
   \<and> map tr_accountId
     (fst (manualClosePosition DEFAULT_SETTINGS [demoAccount ''a1'' True, demoAccount ''a2'' False]
        [''a1'' \<mapsto> quietClient]
        \<lparr>mc_symbol = ''BTC_USDT'', mc_price = Some 100\<rparr>
        (\<lambda>n. 1 / 2)))
     = [''a1'']"
  by (simp add: getEnabledAccounts_def demoAccount_def setTpSlOnAll_def setTpSlAccount_def
      setTpSlPlan_def manualClosePosition_def manualCloseAccount_def quietClient_def
      failedResult_def Let_def truthyNum_def)

text \<open>
  A close batch over two accounts. The first holds two positions and its client rejects
  every close order: its block is the single failed result of the first order, and the
  second position is not tried. The second account is processed all the same.
\<close>

lemma close_order_that_throws:
  "map (\<lambda>r. (tr_accountId r, tr_success r, tr_message r))
     (fst (manualClosePosition DEFAULT_SETTINGS
        [demoAccount ''a1'' True, demoAccount ''a2'' False]
        [''a1'' \<mapsto> quietClient
           \<lparr>c_getOpenPositions := (\<lambda>s. Inr
              [\<lparr>p_symbol = ''BTC_USDT'', p_side = Long, p_volume = 5, p_entryPrice = 100,
                p_leverage = 10, p_margin = 50, p_unrealizedPnl = 0, p_liquidationPrice = None\<rparr>,
               \<lparr>p_symbol = ''BTC_USDT'', p_side = Short, p_volume = 2, p_entryPrice = 100,
                p_leverage = 10, p_margin = 20, p_unrealizedPnl = 0, p_liquidationPrice = None\<rparr>]),
            c_closePosition := (\<lambda>p. Inl ''close rejected'')\<rparr>,
         ''a2'' \<mapsto> quietClient
           \<lparr>c_getOpenPositions := (\<lambda>s. Inr
              [\<lparr>p_symbol = ''BTC_USDT'', p_side = Long, p_volume = 3, p_entryPrice = 100,
                p_leverage = 10, p_margin = 30, p_unrealizedPnl = 0,
                p_liquidationPrice = None\<rparr>])\<rparr>]
        \<lparr>mc_symbol = ''BTC_USDT'', mc_price = Some 100\<rparr>
        (\<lambda>n. 1 / 2)))
   = [(''a1'', False, ''close rejected''), (''a2'', True, ''OK'')]"
  by (simp add: manualClosePosition_def manualCloseAccount_def getEnabledAccounts_def
      demoAccount_def quietClient_def closePositions_Cons closePriceFor_def truthyNum_def
      numOr_def failedResult_def messageOr_def Let_def)

text \<open>
  C6, as amended. \<open>manualOpenPosition\<close> returns exactly one result for each enabled
  account, in the order of the accounts. \<open>setTpSlOnAll\<close> and \<open>manualClosePosition\<close>
  return, in the order of the accounts, results for the enabled accounts that have a
  client and nothing for the others: one result each for TP/SL; for a close, a block
  that is not empty, carries the account's id, is a single failed result when the
  positions cannot be fetched or there are none, and otherwise has at most one result
  per position, exactly one per position in their order when no call of the account
  throws. The result of an account is decided by the answer of its own client to the
  call made for it in its iteration, whatever happens for the other accounts: when that
  call throws, the result is the failed result with the error's message; when it
  returns, the result carries the success flag that the answer reports. A close order
  that throws ends the block of its account with that failed result. Nothing of this
  stops the accounts that come after.
\<close>

theorem batch_results_per_account:
  "(let accounts = getEnabledAccounts allAccounts;
        contractInfo = firstContractInfo clients accounts (mo_symbol mo);
        contractSize = contractSizeOf contractInfo;
        priceStep = manualPriceStep mo contractInfo;
        runs = accountRuns
                 (manualOpenAccount st clients decimalsOf mo contractSize priceStep rnd)
                 0 accounts 0;
        results = fst (manualOpenPosition st allAccounts clients decimalsOf mo rnd)
    in map (\<lambda>(i, a, n). a) runs = accounts
     \<and> map tr_accountId results = map acc_id accounts
     \<and> list_all2
         (\<lambda>(i, a, n) r.
            (case clients (acc_id a) of
               None \<Rightarrow> r = failedResult a msgClientNotInitialised
             | Some cl \<Rightarrow>
                 (case c_openPosition cl
                         (fst (snd (manualOpenPlan st decimalsOf mo contractSize priceStep
                                      rnd i a n))) of
                    Inl err \<Rightarrow> r = failedResult a err
                  | Inr res \<Rightarrow> tr_success r = sr_success res
                             \<and> tr_message r = messageOr (sr_message res) ''OK'')))
         runs results)
 \<and> (let accounts = getEnabledAccounts allAccounts;
        runs = accountRuns (setTpSlAccount st clients ts rnd) 0 accounts 0;
        results = fst (setTpSlOnAll st allAccounts clients ts rnd)
    in map (\<lambda>(i, a, n). a) runs = accounts
     \<and> map tr_accountId results
         = map acc_id (filter (\<lambda>a. clients (acc_id a) \<noteq> None) accounts)
     \<and> list_all2
         (\<lambda>(i, a, n) r.
            (case clients (acc_id a) of
               None \<Rightarrow> False
             | Some cl \<Rightarrow>
                 (case c_setTpSl cl (fst (snd (setTpSlPlan st ts rnd i a n))) of
                    Inl err \<Rightarrow> r = failedResult a err
                  | Inr res \<Rightarrow> tr_success r = tsr_success res
                             \<and> tr_message r = messageOr (tsr_message res) ''OK'')))
         (filter (\<lambda>(i, a, n). clients (acc_id a) \<noteq> None) runs) results)
 \<and> (let accounts = getEnabledAccounts allAccounts;
        runs = accountRuns (manualCloseAccount st clients mc rnd) 0 accounts 0;
        results = fst (manualClosePosition st allAccounts clients mc rnd)
    in map (\<lambda>(i, a, n). a) runs = accounts
     \<and> (let blocks = map (\<lambda>(i, a, n). fst (manualCloseAccount st clients mc rnd i a n)) runs
        in results = concat blocks
         \<and> list_all2
             (\<lambda>(i, a, n) blk.
                (case clients (acc_id a) of
                   None \<Rightarrow> blk = []
                 | Some cl \<Rightarrow>
                     blk \<noteq> [] \<and> (\<forall>r \<in> set blk. tr_accountId r = acc_id a)
                   \<and> (case c_getOpenPositions cl (Some (mc_symbol mc)) of
                         Inl err \<Rightarrow> blk = [failedResult a err]
                       | Inr ps \<Rightarrow>
                           (if ps = [] then blk = [failedResult a msgPositionNotFound]
                            else closeBlock st cl mc rnd a ps (if 0 < i then Suc n else n) blk)
                         \<and> length blk \<le> max 1 (length ps)
                         \<and> ((\<forall>p. \<exists>res. c_closePosition cl p = Inr res)
                             \<and> (\<forall>s. \<exists>v. c_getCurrentPrice cl s = Inr v) \<and> ps \<noteq> [] \<longrightarrow>
                             map tr_executedVolume blk
                               = map (\<lambda>p. Some (Fin (p_volume p))) ps))))
             runs blocks))"
  (is "?open \<and> ?tpsl \<and> ?close")
proof (intro conjI)
  let ?accounts = "getEnabledAccounts allAccounts"
  let ?C = "\<lambda>a. clients (acc_id a) \<noteq> None"
  show ?open
  proof -
    define cs where "cs = contractSizeOf (firstContractInfo clients ?accounts (mo_symbol mo))"
    define ps where "ps = manualPriceStep mo (firstContractInfo clients ?accounts (mo_symbol mo))"
    let ?step = "manualOpenAccount st clients decimalsOf mo cs ps rnd"
    let ?P = "\<lambda>i a n r. tr_accountId r = acc_id a
            \<and> (case clients (acc_id a) of
               None \<Rightarrow> r = failedResult a msgClientNotInitialised
             | Some cl \<Rightarrow>
                 (case c_openPosition cl
                         (fst (snd (manualOpenPlan st decimalsOf mo cs ps rnd i a n))) of
                    Inl err \<Rightarrow> r = failedResult a err
                  | Inr res \<Rightarrow> tr_success r = sr_success res
                             \<and> tr_message r = messageOr (sr_message res) ''OK''))"
    let ?runs = "accountRuns ?step 0 ?accounts 0"
    define results where "results = fst (forEachAccount ?step 0 ?accounts 0)"
    have res: "fst (manualOpenPosition st allAccounts clients decimalsOf mo rnd) = results"
      by (simp add: manualOpenPosition_def Let_def cs_def ps_def results_def split: prod.splits)
    have "\<exists>r. fst (?step i a n) = [r] \<and> ?P i a n r" for i a n
      using manualOpenAccount_result [of st clients decimalsOf mo cs ps rnd i a n] by blast
    then have all: "list_all2 (\<lambda>(i, a, n) r. ?P i a n r) ?runs results"
      unfolding results_def by (rule forEachAccount_runs_single)
    have accs: "map (\<lambda>(i, a, n). a) ?runs = ?accounts" by (rule accountRuns_accounts)
    have "list_all2 (\<lambda>(i, a, n) r. tr_accountId r = acc_id a) ?runs results"
      by (rule list_all2_mono [OF all]) auto
    then have "map tr_accountId results = map (\<lambda>(i, a, n). acc_id a) ?runs"
      by (induction rule: list_all2_induct) auto
    also have "\<dots> = map acc_id (map (\<lambda>(i, a, n). a) ?runs)" by (simp add: case_prod_beta)
    finally have ids: "map tr_accountId results = map acc_id ?accounts" using accs by simp
    have follows: "list_all2 (\<lambda>(i, a, n) r.
            (case clients (acc_id a) of
               None \<Rightarrow> r = failedResult a msgClientNotInitialised
             | Some cl \<Rightarrow>
                 (case c_openPosition cl
                         (fst (snd (manualOpenPlan st decimalsOf mo cs ps rnd i a n))) of
                    Inl err \<Rightarrow> r = failedResult a err
                  | Inr res \<Rightarrow> tr_success r = sr_success res
                             \<and> tr_message r = messageOr (sr_message res) ''OK''))) ?runs results"
      by (rule list_all2_mono [OF all]) auto
    show ?thesis
      unfolding Let_def res cs_def [symmetric] ps_def [symmetric]
      using accs ids follows by simp
  qed
  show ?tpsl
  proof -
    let ?step = "setTpSlAccount st clients ts rnd"
    let ?P = "\<lambda>i a n r. tr_accountId r = acc_id a
            \<and> (case clients (acc_id a) of
               None \<Rightarrow> False
             | Some cl \<Rightarrow>
                 (case c_setTpSl cl (fst (snd (setTpSlPlan st ts rnd i a n))) of
                    Inl err \<Rightarrow> r = failedResult a err
                  | Inr res \<Rightarrow> tr_success r = tsr_success res
                             \<and> tr_message r = messageOr (tsr_message res) ''OK''))"
    let ?runs = "accountRuns ?step 0 ?accounts 0"
    define results where "results = fst (forEachAccount ?step 0 ?accounts 0)"
    have res: "fst (setTpSlOnAll st allAccounts clients ts rnd) = results"
      by (simp add: setTpSlOnAll_def results_def split: prod.splits)
    have "if ?C a then (\<exists>r. fst (?step i a n) = [r] \<and> ?P i a n r) else fst (?step i a n) = []"
      for i a n
      using setTpSlAccount_result [where clients = clients and a = a and st = st
          and params = ts and rnd = rnd and i = i and n = n]
      by (cases "clients (acc_id a)") auto
    then have all: "list_all2 (\<lambda>(i, a, n) r. ?P i a n r)
                      (filter (\<lambda>(i, a, n). ?C a) ?runs) results"
      unfolding results_def by (rule forEachAccount_runs_optional)
    have accs: "map (\<lambda>(i, a, n). a) ?runs = ?accounts" by (rule accountRuns_accounts)
    have "list_all2 (\<lambda>(i, a, n) r. tr_accountId r = acc_id a)
            (filter (\<lambda>(i, a, n). ?C a) ?runs) results"
      by (rule list_all2_mono [OF all]) auto
    then have "map tr_accountId results
                 = map (\<lambda>(i, a, n). acc_id a) (filter (\<lambda>(i, a, n). ?C a) ?runs)"
      by (induction rule: list_all2_induct) auto
    also have "\<dots> = map acc_id (filter ?C (map (\<lambda>(i, a, n). a) ?runs))"
      by (rule runs_filter_accounts)
    finally have ids: "map tr_accountId results = map acc_id (filter ?C ?accounts)"
      using accs by simp
    have follows: "list_all2 (\<lambda>(i, a, n) r.
            (case clients (acc_id a) of
               None \<Rightarrow> False
             | Some cl \<Rightarrow>
                 (case c_setTpSl cl (fst (snd (setTpSlPlan st ts rnd i a n))) of
                    Inl err \<Rightarrow> r = failedResult a err
                  | Inr res \<Rightarrow> tr_success r = tsr_success res
                             \<and> tr_message r = messageOr (tsr_message res) ''OK'')))
            (filter (\<lambda>(i, a, n). ?C a) ?runs) results"
      by (rule list_all2_mono [OF all]) auto
    show ?thesis
      unfolding Let_def res using accs ids follows by simp
  qed
  show ?close
  proof -
    let ?step = "manualCloseAccount st clients mc rnd"
    let ?runs = "accountRuns ?step 0 ?accounts 0"
    let ?Q = "\<lambda>i a n blk.
                (case clients (acc_id a) of
                   None \<Rightarrow> blk = []
                 | Some cl \<Rightarrow>
                     blk \<noteq> [] \<and> (\<forall>r \<in> set blk. tr_accountId r = acc_id a)
                   \<and> (case c_getOpenPositions cl (Some (mc_symbol mc)) of
                         Inl err \<Rightarrow> blk = [failedResult a err]
                       | Inr ps \<Rightarrow>
                           (if ps = [] then blk = [failedResult a msgPositionNotFound]
                            else closeBlock st cl mc rnd a ps (if 0 < i then Suc n else n) blk)
                         \<and> length blk \<le> max 1 (length ps)
                         \<and> ((\<forall>p. \<exists>res. c_closePosition cl p = Inr res)
                             \<and> (\<forall>s. \<exists>v. c_getCurrentPrice cl s = Inr v) \<and> ps \<noteq> [] \<longrightarrow>
                             map tr_executedVolume blk
                               = map (\<lambda>p. Some (Fin (p_volume p))) ps)))"
    define results where "results = fst (forEachAccount ?step 0 ?accounts 0)"
    define blocks where "blocks = map (\<lambda>(i, a, n). fst (?step i a n)) ?runs"
    have res: "fst (manualClosePosition st allAccounts clients mc rnd) = results"
      by (simp add: manualClosePosition_def results_def split: prod.splits)
    have accs: "map (\<lambda>(i, a, n). a) ?runs = ?accounts" by (rule accountRuns_accounts)
    have cat: "results = concat blocks"
      unfolding results_def blocks_def by (rule forEachAccount_runs_results)
    have q: "?Q i a n (fst (?step i a n))" for i a n
      using manualCloseAccount_result [where clients = clients and a = a and st = st
          and params = mc and rnd = rnd and i = i and n = n]
      by (cases "clients (acc_id a)") auto
    have "(case x of (i, a, n) \<Rightarrow> \<lambda>blk. ?Q i a n blk)
            ((case x of (i, a, n) \<Rightarrow> fst (?step i a n)))" for x
    proof (cases x)
      case (fields i a n)
      show ?thesis unfolding fields prod.case by (rule q)
    qed
    then have "list_all2 (\<lambda>(i, a, n) blk. ?Q i a n blk) ?runs blocks"
      unfolding blocks_def by (rule list_all2_map_self)
    then have "results = concat blocks
                 \<and> list_all2 (\<lambda>(i, a, n) blk. ?Q i a n blk) ?runs blocks"
      using cat by blast
    then show ?thesis
      unfolding Let_def res blocks_def using accs by simp
  qed
qed

theorem batch_results_per_account_witness:
  "map tr_accountId
     (fst (manualOpenPosition DEFAULT_SETTINGS
        [demoAccount ''a1'' True, demoAccount ''a2'' False, demoAccount ''a3'' False]
        [''a1'' \<mapsto> quietClient,
         ''a2'' \<mapsto> quietClient\<lparr>c_openPosition := (\<lambda>p. Inl ''order rejected'')\<rparr>,
         ''a3'' \<mapsto> quietClient]
        (\<lambda>step. 0)
        \<lparr>mo_symbol = ''BTC_USDT'', mo_side = Long, mo_price = 100, mo_positionSizeUsd = 1000,
         mo_leverage = 20, mo_priceStep = Some 1\<rparr>
        (\<lambda>n. 1 / 2)))
     = [''a1'', ''a2'', ''a3'']
   \<and> map (\<lambda>r. (tr_success r, tr_message r))
     (fst (manualOpenPosition DEFAULT_SETTINGS
        [demoAccount ''a1'' True, demoAccount ''a2'' False, demoAccount ''a3'' False]
        [''a1'' \<mapsto> quietClient,
         ''a2'' \<mapsto> quietClient\<lparr>c_openPosition := (\<lambda>p. Inl ''order rejected'')\<rparr>,
         ''a3'' \<mapsto> quietClient]
        (\<lambda>step. 0)
        \<lparr>mo_symbol = ''BTC_USDT'', mo_side = Long, mo_price = 100, mo_positionSizeUsd = 1000,
         mo_leverage = 20, mo_priceStep = Some 1\<rparr>
        (\<lambda>n. 1 / 2)))
     = [(True, ''OK''), (False, ''order rejected''), (True, ''OK'')]"
  (is "map tr_accountId ?run = _ \<and> map _ ?run = _")
proof -
  let ?accs = "[demoAccount ''a1'' True, demoAccount ''a2'' False, demoAccount ''a3'' False]"
  let ?bad = "quietClient\<lparr>c_openPosition := (\<lambda>p. Inl ''order rejected'')\<rparr>"
  let ?clients = "[''a1'' \<mapsto> quietClient, ''a2'' \<mapsto> ?bad, ''a3'' \<mapsto> quietClient]"
  let ?mo = "\<lparr>mo_symbol = ''BTC_USDT'', mo_side = Long, mo_price = 100,
              mo_positionSizeUsd = 1000, mo_leverage = 20, mo_priceStep = Some 1\<rparr>"
  have en: "getEnabledAccounts ?accs = ?accs"
    by (simp add: getEnabledAccounts_def demoAccount_def)
  have ids: "map tr_accountId ?run = map acc_id ?accs"
    and follows: "list_all2
         (\<lambda>(i, a, n) r.
            (case ?clients (acc_id a) of
               None \<Rightarrow> r = failedResult a msgClientNotInitialised
             | Some cl \<Rightarrow>
                 (case c_openPosition cl
                         (fst (snd (manualOpenPlan DEFAULT_SETTINGS (\<lambda>step. 0) ?mo
                            (contractSizeOf (firstContractInfo ?clients ?accs (mo_symbol ?mo)))
                            (manualPriceStep ?mo (firstContractInfo ?clients ?accs (mo_symbol ?mo)))
                            (\<lambda>n. 1 / 2) i a n))) of
                    Inl err \<Rightarrow> r = failedResult a err
                  | Inr res \<Rightarrow> tr_success r = sr_success res
                             \<and> tr_message r = messageOr (sr_message res) ''OK'')))
         (accountRuns
            (manualOpenAccount DEFAULT_SETTINGS ?clients (\<lambda>step. 0) ?mo
               (contractSizeOf (firstContractInfo ?clients ?accs (mo_symbol ?mo)))
               (manualPriceStep ?mo (firstContractInfo ?clients ?accs (mo_symbol ?mo)))
               (\<lambda>n. 1 / 2))
            0 ?accs 0)
         ?run"
    using batch_results_per_account [where clients = ?clients and allAccounts = ?accs
        and st = DEFAULT_SETTINGS and decimalsOf = "\<lambda>step. 0" and mo = ?mo
        and rnd = "\<lambda>n. 1 / 2"]
    unfolding Let_def en by blast+
  from follows obtain r1 r2 r3 where run: "?run = [r1, r2, r3]"
    and q1: "tr_success r1 \<and> tr_message r1 = ''OK''"
    and q2: "r2 = failedResult (demoAccount ''a2'' False) ''order rejected''"
    and q3: "tr_success r3 \<and> tr_message r3 = ''OK''"
    by (auto simp: list_all2_Cons1 demoAccount_def quietClient_def messageOr_def)
  show ?thesis using run q1 q2 q3 ids by (simp add: failedResult_def demoAccount_def)
qed

section \<open>The orders of a batch, account by account\<close>

text \<open>What the body of each loop does for an account, and to which account it does it.\<close>

lemma manualOpenPlan_sleeps:
  "fst (manualOpenPlan st dec params cs ps rnd i a n) =
     (if \<not> isMaster a \<and> 0 < i
      then [Sleep (randomDelay (delayMinMs st) (delayMaxMs st) (rnd n))] else [])"
  by (simp add: manualOpenPlan_def Let_def)

lemma manualOpenAccount_effects:
  "fst (snd (manualOpenAccount st clients dec params cs ps rnd i a n)) =
     (case clients (acc_id a) of
        None \<Rightarrow> []
      | Some cl \<Rightarrow> fst (manualOpenPlan st dec params cs ps rnd i a n)
                   @ [OpenPosition (acc_id a) (fst (snd (manualOpenPlan st dec params cs ps rnd i a n)))])"
  by (simp add: manualOpenAccount_def split: option.splits prod.splits sum.splits)


lemma manualOpenAccount_openOrders:
  "openOrders (fst (snd (manualOpenAccount st clients dec params cs ps rnd i a n))) =
     (case clients (acc_id a) of
        None \<Rightarrow> []
      | Some cl \<Rightarrow> [(acc_id a, fst (snd (manualOpenPlan st dec params cs ps rnd i a n)))])"
  by (simp add: manualOpenAccount_effects manualOpenPlan_sleeps split: option.splits)




text \<open>
  The body of the loop of \<open>handleTradeSignal\<close> submits one order, the planned one, when
  the account has a client that reports no open position and cancels the old orders
  without an error; otherwise it submits none.
\<close>

lemma signalAccount_effects:
  "openOrders (fst (snd (signalAccount st clients dec signal ps cs mx rnd i a n))) =
     (case clients (acc_id a) of
        None \<Rightarrow> []
      | Some cl \<Rightarrow>
          if c_hasOpenPosition cl (sig_fullSymbol signal) = Inr False
             \<and> (\<exists>b. c_cancelAllOrders cl (sig_fullSymbol signal) = Inr b)
          then [(acc_id a,
                 fst (signalPlan st dec signal ps cs mx rnd a (if 0 < i then Suc n else n)))]
          else [])
   \<and> (\<forall>e \<in> set (fst (snd (signalAccount st clients dec signal ps cs mx rnd i a n))).
         effectAccount e = None \<or> effectAccount e = Some (acc_id a))"
proof (cases "clients (acc_id a)")
  case None
  then show ?thesis by (simp add: signalAccount_def)
next
  case (Some cl)
  show ?thesis
  proof (cases "c_hasOpenPosition cl (sig_fullSymbol signal)")
    case (Inl err)
    then show ?thesis using Some by (simp add: signalAccount_def Let_def)
  next
    case (Inr hasPosition)
    show ?thesis
    proof (cases hasPosition)
      case True
      then show ?thesis using Some Inr by (simp add: signalAccount_def Let_def)
    next
      case False
      show ?thesis
      proof (cases "c_cancelAllOrders cl (sig_fullSymbol signal)")
        case (Inl err)
        then show ?thesis using Some Inr False by (simp add: signalAccount_def Let_def)
      next
        case cancelled: (Inr b)
        obtain order ep n3 where
          plan: "signalPlan st dec signal ps cs mx rnd a (if 0 < i then Suc n else n)
                   = (order, ep, n3)"
          by (cases "signalPlan st dec signal ps cs mx rnd a (if 0 < i then Suc n else n)") auto
        show ?thesis
        proof (cases "c_openPosition cl order")
          case (Inl err)
          then show ?thesis using Some Inr False cancelled plan
            by (simp add: signalAccount_def Let_def)
        next
          case opened: (Inr result)
          then show ?thesis using Some Inr False cancelled plan
            by (cases "sr_success result") (simp_all add: signalAccount_def Let_def)
        qed
      qed
    qed
  qed
qed







section \<open>The volume of an order\<close>

text \<open>
  The quotient of the model is the quotient of the source wherever the divisor is not
  zero: the factors multiply to the price times the contract size.
\<close>

lemma applyPriceDeviation_factor:
  "applyPriceDeviation p d s r = p * deviationFactor d s r"
  by (simp add: applyPriceDeviation_def deviationFactor_def Let_def)

lemma jsDivide_finite:
  assumes "prod_list fs \<noteq> 0"
  shows "jsDivide x fs = Fin (x / prod_list fs)"
  using assms by (simp add: jsDivide_def Let_def)

lemma jsMax_not_below:
  "\<not> jsLess (jsMax 1 v) 1"
  by (cases v) simp_all

lemma openVolumes_openOrders:
  "openVolumes es = map (\<lambda>(x, order). op_volume order) (openOrders es)"
  by (induction es rule: openOrders.induct) simp_all

lemma openOrders_member:
  "((x, order) \<in> set (openOrders es)) = (OpenPosition x order \<in> set es)"
  by (induction es rule: openOrders.induct) auto

lemma openVolumes_bound:
  assumes "\<And>x order. OpenPosition x order \<in> set es \<Longrightarrow> \<not> jsLess (op_volume order) 1"
  shows "\<forall>v \<in> set (openVolumes es). \<not> jsLess v 1"
  using assms by (induction es rule: openVolumes.induct) auto

text \<open>
  The volume that the body of each loop derives, and what the body does with it: the
  automatic copy submits the derived count or, when the count is below 1, logs and
  skips; the manual and the signal-driven open submit \<open>Math.max(1, count)\<close>.
\<close>

lemma manualOpenPlan_volume:
  "op_volume (fst (snd (manualOpenPlan st dec params cs ps rnd i a n)))
     = jsMax 1 (jsFloor (jsDivide (min (mo_positionSizeUsd params) (maxPositionUsd a))
         ((if isMaster a then [mo_price params]
           else [mo_price params,
                 deviationFactor (priceDeviationPercent st) (mo_side params)
                   (rnd (if 0 < i then Suc n else n))])
          @ [cs])))"
  by (simp add: manualOpenPlan_def Let_def)

lemma manualOpenPlan_price:
  "fst (snd (snd (manualOpenPlan st dec params cs ps rnd i a n))) * cs
     = prod_list ((if isMaster a then [mo_price params]
           else [mo_price params,
                 deviationFactor (priceDeviationPercent st) (mo_side params)
                   (rnd (if 0 < i then Suc n else n))])
          @ [cs])"
  by (simp add: manualOpenPlan_def Let_def applyPriceDeviation_factor)

lemma signalPlan_volume:
  "op_volume (fst (signalPlan st dec signal ps cs mx rnd a n1))
     = jsMax 1 (jsFloor (jsDivide
         (if 0 < mx
          then min (maxPositionUsd a)
                 (mx * cs * fst (snd (signalPlan st dec signal ps cs mx rnd a n1)))
          else maxPositionUsd a)
         ((if isMaster a then [sig_entryPrice signal, 1 + signalEntryOffset st / 100]
           else [sig_entryPrice signal, 1 + signalEntryOffset st / 100,
                 deviationFactor (priceDeviationPercent st) (sig_side signal) (rnd n1)])
          @ [cs])))"
  by (simp add: signalPlan_def Let_def)

lemma signalPlan_price:
  "fst (snd (signalPlan st dec signal ps cs mx rnd a n1)) * cs
     = prod_list ((if isMaster a then [sig_entryPrice signal, 1 + signalEntryOffset st / 100]
           else [sig_entryPrice signal, 1 + signalEntryOffset st / 100,
                 deviationFactor (priceDeviationPercent st) (sig_side signal) (rnd n1)])
          @ [cs])"
  by (simp add: signalPlan_def Let_def applyPriceDeviation_factor)

lemma copyOpenPlan_volume:
  "fst (copyOpenPlan st dec mp ci rnd a n1)
     = jsFloor (jsDivide (min (maxPositionUsd a) (p_margin mp * p_leverage mp))
         [p_entryPrice mp,
          deviationFactor (priceDeviationPercent st) (p_side mp) (rnd n1),
          contractSizeOf ci])"
  and copyOpenPlan_order_volume:
  "op_volume (fst (snd (copyOpenPlan st dec mp ci rnd a n1)))
     = fst (copyOpenPlan st dec mp ci rnd a n1)"
  by (simp_all add: copyOpenPlan_def Let_def)

lemma copyOpenAccount_effects:
  "fst (snd (copyOpenAccount st clients dec mp rnd i a n)) =
     (case clients (acc_id a) of
        None \<Rightarrow> [Sleep (randomDelay (delayMinMs st) (delayMaxMs st) (rnd n))]
      | Some cl \<Rightarrow>
          if jsLess (fst (copyOpenPlan st dec mp (c_getContractInfo cl (p_symbol mp)) rnd a (Suc n))) 1
          then [Sleep (randomDelay (delayMinMs st) (delayMaxMs st) (rnd n)),
                LogError (acc_id a) msgVolumeTooSmall]
          else Sleep (randomDelay (delayMinMs st) (delayMaxMs st) (rnd n))
               # OpenPosition (acc_id a)
                   (fst (snd (copyOpenPlan st dec mp (c_getContractInfo cl (p_symbol mp))
                                rnd a (Suc n))))
               # (case c_openPosition cl
                         (fst (snd (copyOpenPlan st dec mp (c_getContractInfo cl (p_symbol mp))
                                      rnd a (Suc n)))) of
                    Inl err \<Rightarrow> [LogError (acc_id a) msgCopyOpenError]
                  | Inr result \<Rightarrow>
                      if sr_success result then []
                      else [LogError (acc_id a)
                              (''Open error: '' @
                                 (case sr_message result of None \<Rightarrow> ''undefined'' | Some m \<Rightarrow> m))]))"
proof (cases "clients (acc_id a)")
  case None
  then show ?thesis by (simp add: copyOpenAccount_def Let_def)
next
  case (Some cl)
  obtain volume order n2 where
    plan: "copyOpenPlan st dec mp (c_getContractInfo cl (p_symbol mp)) rnd a (Suc n)
             = (volume, order, n2)"
    by (cases "copyOpenPlan st dec mp (c_getContractInfo cl (p_symbol mp)) rnd a (Suc n)") auto
  show ?thesis
  proof (cases "jsLess volume 1")
    case True
    then show ?thesis using Some plan by (simp add: copyOpenAccount_def Let_def)
  next
    case False
    show ?thesis
    proof (cases "c_openPosition cl order")
      case (Inl err)
      then show ?thesis using Some plan False by (simp add: copyOpenAccount_def Let_def)
    next
      case (Inr result)
      then show ?thesis using Some plan False
        by (cases "sr_success result") (simp_all add: copyOpenAccount_def Let_def)
    qed
  qed
qed

lemma copyOpenAccount_openOrders:
  "openOrders (fst (snd (copyOpenAccount st clients dec mp rnd i a n))) =
     (case clients (acc_id a) of
        None \<Rightarrow> []
      | Some cl \<Rightarrow>
          if jsLess (fst (copyOpenPlan st dec mp (c_getContractInfo cl (p_symbol mp)) rnd a (Suc n))) 1
          then []
          else [(acc_id a,
                 fst (snd (copyOpenPlan st dec mp (c_getContractInfo cl (p_symbol mp))
                             rnd a (Suc n))))])"
  unfolding copyOpenAccount_effects
  by (simp split: option.splits sum.splits)

lemma copyOpenAccount_orders:
  assumes "OpenPosition x order \<in> set (fst (snd (copyOpenAccount st clients dec mp rnd i a n)))"
  shows "\<not> jsLess (op_volume order) 1"
proof -
  have "(x, order) \<in> set (openOrders (fst (snd (copyOpenAccount st clients dec mp rnd i a n))))"
    using assms by (simp add: openOrders_member)
  then show ?thesis
    unfolding copyOpenAccount_openOrders
    by (auto simp: copyOpenPlan_order_volume split: option.splits if_splits)
qed

lemma manualOpenAccount_orders:
  assumes "OpenPosition x order \<in> set (fst (snd (manualOpenAccount st clients dec params cs ps rnd i a n)))"
  shows "\<not> jsLess (op_volume order) 1"
proof -
  have "(x, order) \<in> set (openOrders (fst (snd (manualOpenAccount st clients dec params cs ps
                                                   rnd i a n))))"
    using assms by (simp add: openOrders_member)
  then have "order = fst (snd (manualOpenPlan st dec params cs ps rnd i a n))"
    unfolding manualOpenAccount_openOrders by (auto split: option.splits)
  then show ?thesis by (simp add: manualOpenPlan_volume jsMax_not_below)
qed

lemma signalAccount_orders:
  assumes "OpenPosition x order \<in> set (fst (snd (signalAccount st clients dec signal ps cs mx rnd i a n)))"
  shows "\<not> jsLess (op_volume order) 1"
proof -
  have "(x, order) \<in> set (openOrders (fst (snd (signalAccount st clients dec signal ps cs mx
                                                   rnd i a n))))"
    using assms by (simp add: openOrders_member)
  then have "order = fst (signalPlan st dec signal ps cs mx rnd a (if 0 < i then Suc n else n))"
    unfolding conjunct1 [OF signalAccount_effects] by (auto split: option.splits if_splits)
  then show ?thesis by (simp add: signalPlan_volume jsMax_not_below)
qed

text \<open>
  A manual open of 10 USD at price 100 with contract size 1: the derived count is
  \<open>floor(10 / 100) = 0\<close>, yet the order is submitted, with volume 1, and the result
  of the account is a success.
\<close>

theorem manual_open_raises_volume:
  "jsFloor (jsDivide (min 10 (maxPositionUsd (demoAccount ''m1'' True)))
              [100, contractSizeOf None]) = Fin 0
 \<and> manualOpenPosition DEFAULT_SETTINGS [demoAccount ''m1'' True] [''m1'' \<mapsto> quietClient]
     (\<lambda>step. 0)
     \<lparr>mo_symbol = ''BTC_USDT'', mo_side = Long, mo_price = 100, mo_positionSizeUsd = 10,
      mo_leverage = 20, mo_priceStep = Some 1\<rparr>
     (\<lambda>n. 1 / 2)
   = ([\<lparr>tr_accountId = ''m1'', tr_accountName = ''m1'', tr_success = True,
        tr_message = ''OK'', tr_orderId = None, tr_executedPrice = Some 100,
        tr_executedVolume = Some (Fin 1), tr_leverage = Some 20\<rparr>],
      [OpenPosition ''m1''
         \<lparr>op_symbol = ''BTC_USDT'', op_side = Long, op_price = 100, op_volume = Fin 1,
          op_leverage = 20, op_takeProfit = None\<rparr>])"
  by (simp add: manualOpenPosition_def getEnabledAccounts_def demoAccount_def
      firstContractInfo_def contractSizeOf_def manualPriceStep_def numOr_def quietClient_def
      manualOpenAccount_def manualOpenPlan_def Let_def messageOr_def roundToStep_def
      toFixed_def jsDivide_def)

text \<open>
  A divisor that is zero. The parser accepts a signal with entry price 0; the quotient
  is then \<open>100 / 0\<close>, which is
  \<open>Infinity\<close>, and with a contract limit \<open>0 / 0\<close>, which is \<open>NaN\<close>. Neither is below 1,
  and \<open>Math.max(1, \<cdot>)\<close> leaves both as they are: the order is submitted with that
  volume. In the automatic copy a master position without an entry price gives the count
  \<open>Infinity\<close>, which is not below 1 either.
\<close>

lemma volume_at_zero_price:
  "map_option (\<lambda>(results, effects). openVolumes effects)
     (handleTradeSignal DEFAULT_SETTINGS [demoAccount ''m1'' True] [''m1'' \<mapsto> quietClient]
        (\<lambda>step. 0) 1 Map.empty ''#X_USDT Price DEX $0 Price MEXC $0 LONG'' (\<lambda>n. 1 / 2))
   = Some [PosInf]
 \<and> map_option (\<lambda>(results, effects). openVolumes effects)
     (handleTradeSignal DEFAULT_SETTINGS [demoAccount ''m1'' True] [''m1'' \<mapsto> quietClient]
        (\<lambda>step. 0) 1 [''X_USDT'' \<mapsto> 5] ''#X_USDT Price DEX $0 Price MEXC $0 LONG''
        (\<lambda>n. 1 / 2))
   = Some [NaN]
 \<and> openVolumes (copyOpenPosition DEFAULT_SETTINGS
        [demoAccount ''m1'' True, demoAccount ''s1'' False] [''s1'' \<mapsto> quietClient]
        (\<lambda>step. 0)
        \<lparr>p_symbol = ''BTC_USDT'', p_side = Long, p_volume = 5, p_entryPrice = 0,
         p_leverage = 10, p_margin = 50, p_unrealizedPnl = 0, p_liquidationPrice = None\<rparr>
        (\<lambda>n. 1 / 2))
   = [PosInf]"
proof -
  have sg: "parseTradeSignal ''#X_USDT Price DEX $0 Price MEXC $0 LONG''
              = Some \<lparr>sig_symbol = ''X'', sig_fullSymbol = ''X_USDT'', sig_entryPrice = 0,
                      sig_takeProfit = 0, sig_side = Long\<rparr>"
    by code_simp
  show ?thesis
    by (simp add: handleTradeSignal_def sg DEFAULT_SETTINGS_def
      getEnabledAccounts_def getSlaveAccounts_def demoAccount_def firstContractInfo_def
      contractSizeOf_def quietClient_def numOr_def signalAccount_def signalPlan_def Let_def
      randomLeverage_def randomDelay_def roundToStep_def toFixed_def jsDivide_def
      copyOpenPosition_def copyOpenAccount_def copyOpenPlan_def deviationFactor_def
      applyPriceDeviation_def)
qed

text \<open>What one iteration of each loop does with the count it derives.\<close>

lemma copyOpenAccount_volume:
  "(case clients (acc_id a) of
      None \<Rightarrow> fst (snd (copyOpenAccount st clients dec mp rnd i a n))
               = [Sleep (randomDelay (delayMinMs st) (delayMaxMs st) (rnd n))]
    | Some cl \<Rightarrow>
        (let positionUsd = min (maxPositionUsd a) (p_margin mp * p_leverage mp);
             price = applyPriceDeviation (p_entryPrice mp) (priceDeviationPercent st)
                       (p_side mp) (rnd (Suc n));
             contractSize = contractSizeOf (c_getContractInfo cl (p_symbol mp));
             count = jsFloor (jsDivide positionUsd
                       [p_entryPrice mp,
                        deviationFactor (priceDeviationPercent st) (p_side mp) (rnd (Suc n)),
                        contractSize])
         in (price * contractSize \<noteq> 0 \<longrightarrow>
               count = Fin (of_int \<lfloor>positionUsd / (price * contractSize)\<rfloor>))
          \<and> (if jsLess count 1
              then fst (snd (copyOpenAccount st clients dec mp rnd i a n))
                     = [Sleep (randomDelay (delayMinMs st) (delayMaxMs st) (rnd n)),
                        LogError (acc_id a) msgVolumeTooSmall]
              else (\<exists>order. openOrders (fst (snd (copyOpenAccount st clients dec mp rnd i a n)))
                               = [(acc_id a, order)]
                          \<and> op_volume order = count))))"
proof (cases "clients (acc_id a)")
  case None
  then show ?thesis by (simp add: copyOpenAccount_effects)
next
  case (Some cl)
  define positionUsd where "positionUsd = min (maxPositionUsd a) (p_margin mp * p_leverage mp)"
  define cs where "cs = contractSizeOf (c_getContractInfo cl (p_symbol mp))"
  define fs where "fs = [p_entryPrice mp,
                        deviationFactor (priceDeviationPercent st) (p_side mp) (rnd (Suc n)), cs]"
  define count where "count = jsFloor (jsDivide positionUsd fs)"
  have pr: "prod_list fs = applyPriceDeviation (p_entryPrice mp) (priceDeviationPercent st)
                             (p_side mp) (rnd (Suc n)) * cs"
    by (simp add: fs_def applyPriceDeviation_factor)
  have fin: "count = Fin (of_int \<lfloor>positionUsd / (applyPriceDeviation (p_entryPrice mp)
                 (priceDeviationPercent st) (p_side mp) (rnd (Suc n)) * cs)\<rfloor>)"
    if "applyPriceDeviation (p_entryPrice mp) (priceDeviationPercent st)
          (p_side mp) (rnd (Suc n)) * cs \<noteq> 0"
    using that jsDivide_finite [of fs positionUsd] unfolding count_def pr by simp
  have plan: "fst (copyOpenPlan st dec mp (c_getContractInfo cl (p_symbol mp)) rnd a (Suc n))
                = count"
    by (simp add: copyOpenPlan_volume count_def fs_def cs_def positionUsd_def)
  have skip: "fst (snd (copyOpenAccount st clients dec mp rnd i a n))
                     = [Sleep (randomDelay (delayMinMs st) (delayMaxMs st) (rnd n)),
                        LogError (acc_id a) msgVolumeTooSmall]"
    if "jsLess count 1"
    using that Some plan by (simp add: copyOpenAccount_effects)
  have submit: "\<exists>order. openOrders (fst (snd (copyOpenAccount st clients dec mp rnd i a n)))
                               = [(acc_id a, order)]
                          \<and> op_volume order = count"
    if "\<not> jsLess count 1"
    using that Some plan by (simp add: copyOpenAccount_openOrders copyOpenPlan_order_volume)
  show ?thesis
    using Some fin skip submit
    unfolding Let_def positionUsd_def cs_def fs_def count_def
    by simp
qed

lemma manualOpenAccount_volume:
  "(case clients (acc_id a) of
      None \<Rightarrow> fst (snd (manualOpenAccount st clients dec mo cs ps rnd i a n)) = []
    | Some cl \<Rightarrow>
        (let maxPosUsd = min (mo_positionSizeUsd mo) (maxPositionUsd a);
             entryPrice = (if isMaster a then mo_price mo
                           else applyPriceDeviation (mo_price mo) (priceDeviationPercent st)
                                  (mo_side mo) (rnd (if 0 < i then Suc n else n)));
             count = jsFloor (jsDivide maxPosUsd
                       ((if isMaster a then [mo_price mo]
                         else [mo_price mo,
                               deviationFactor (priceDeviationPercent st) (mo_side mo)
                                 (rnd (if 0 < i then Suc n else n))])
                        @ [cs]))
         in (entryPrice * cs \<noteq> 0 \<longrightarrow>
               count = Fin (of_int \<lfloor>maxPosUsd / (entryPrice * cs)\<rfloor>))
          \<and> (\<exists>order. openOrders (fst (snd (manualOpenAccount st clients dec mo cs ps rnd i a n)))
                         = [(acc_id a, order)]
                    \<and> op_volume order = jsMax 1 count)))"
proof (cases "clients (acc_id a)")
  case None
  then show ?thesis by (simp add: manualOpenAccount_effects)
next
  case (Some cl)
  define maxPosUsd where "maxPosUsd = min (mo_positionSizeUsd mo) (maxPositionUsd a)"
  define entryPrice where "entryPrice = (if isMaster a then mo_price mo
                           else applyPriceDeviation (mo_price mo) (priceDeviationPercent st)
                                  (mo_side mo) (rnd (if 0 < i then Suc n else n)))"
  define fs where "fs = (if isMaster a then [mo_price mo]
                         else [mo_price mo,
                               deviationFactor (priceDeviationPercent st) (mo_side mo)
                                 (rnd (if 0 < i then Suc n else n))])
                        @ [cs]"
  define count where "count = jsFloor (jsDivide maxPosUsd fs)"
  have pr: "prod_list fs = entryPrice * cs"
    by (simp add: fs_def entryPrice_def applyPriceDeviation_factor)
  have fin: "count = Fin (of_int \<lfloor>maxPosUsd / (entryPrice * cs)\<rfloor>)" if "entryPrice * cs \<noteq> 0"
    using that jsDivide_finite [of fs maxPosUsd] unfolding count_def pr by simp
  have vol: "op_volume (fst (snd (manualOpenPlan st dec mo cs ps rnd i a n))) = jsMax 1 count"
    unfolding manualOpenPlan_volume count_def fs_def maxPosUsd_def by (rule refl)
  have submit: "\<exists>order. openOrders (fst (snd (manualOpenAccount st clients dec mo cs ps rnd i a n)))
                         = [(acc_id a, order)]
                    \<and> op_volume order = jsMax 1 count"
    using Some vol by (simp add: manualOpenAccount_openOrders)
  show ?thesis
    using Some fin submit
    unfolding Let_def maxPosUsd_def entryPrice_def fs_def count_def
    by simp
qed

lemma signalAccount_volume:
  "(case clients (acc_id a) of
      None \<Rightarrow> openOrders (fst (snd (signalAccount st clients dec signal ps cs mx rnd i a n))) = []
    | Some cl \<Rightarrow>
        (let entryPrice0 = sig_entryPrice signal * (1 + signalEntryOffset st / 100);
             entryPrice = (if isMaster a then entryPrice0
                           else applyPriceDeviation entryPrice0 (priceDeviationPercent st)
                                  (sig_side signal) (rnd (if 0 < i then Suc n else n)));
             positionUsd = (if 0 < mx then min (maxPositionUsd a) (mx * cs * entryPrice)
                            else maxPositionUsd a);
             count = jsFloor (jsDivide positionUsd
                       ((if isMaster a
                         then [sig_entryPrice signal, 1 + signalEntryOffset st / 100]
                         else [sig_entryPrice signal, 1 + signalEntryOffset st / 100,
                               deviationFactor (priceDeviationPercent st) (sig_side signal)
                                 (rnd (if 0 < i then Suc n else n))])
                        @ [cs]))
         in (entryPrice * cs \<noteq> 0 \<longrightarrow>
               count = Fin (of_int \<lfloor>positionUsd / (entryPrice * cs)\<rfloor>))
          \<and> (if c_hasOpenPosition cl (sig_fullSymbol signal) = Inr False
                 \<and> (\<exists>b. c_cancelAllOrders cl (sig_fullSymbol signal) = Inr b)
              then (\<exists>order. openOrders (fst (snd (signalAccount st clients dec signal ps cs mx
                                                     rnd i a n)))
                               = [(acc_id a, order)]
                          \<and> op_volume order = jsMax 1 count)
              else openOrders (fst (snd (signalAccount st clients dec signal ps cs mx
                                           rnd i a n))) = [])))"
proof (cases "clients (acc_id a)")
  case None
  then show ?thesis by (simp add: conjunct1 [OF signalAccount_effects])
next
  case (Some cl)
  define n1 where "n1 = (if 0 < i then Suc n else n)"
  define entryPrice0 where "entryPrice0 = sig_entryPrice signal * (1 + signalEntryOffset st / 100)"
  define entryPrice where "entryPrice = (if isMaster a then entryPrice0
                           else applyPriceDeviation entryPrice0 (priceDeviationPercent st)
                                  (sig_side signal) (rnd n1))"
  define positionUsd where "positionUsd = (if 0 < mx then min (maxPositionUsd a) (mx * cs * entryPrice)
                            else maxPositionUsd a)"
  define fs where "fs = (if isMaster a
                         then [sig_entryPrice signal, 1 + signalEntryOffset st / 100]
                         else [sig_entryPrice signal, 1 + signalEntryOffset st / 100,
                               deviationFactor (priceDeviationPercent st) (sig_side signal)
                                 (rnd n1)])
                        @ [cs]"
  define count where "count = jsFloor (jsDivide positionUsd fs)"
  have ep: "fst (snd (signalPlan st dec signal ps cs mx rnd a n1)) = entryPrice"
    by (simp add: signalPlan_def Let_def entryPrice_def entryPrice0_def)
  have pr: "prod_list fs = entryPrice * cs"
    by (simp add: fs_def entryPrice_def entryPrice0_def applyPriceDeviation_factor)
  have fin: "count = Fin (of_int \<lfloor>positionUsd / (entryPrice * cs)\<rfloor>)" if "entryPrice * cs \<noteq> 0"
    using that jsDivide_finite [of fs positionUsd] unfolding count_def pr by simp
  have vol: "op_volume (fst (signalPlan st dec signal ps cs mx rnd a n1)) = jsMax 1 count"
    unfolding signalPlan_volume ep count_def fs_def positionUsd_def by (rule refl)
  have orders: "openOrders (fst (snd (signalAccount st clients dec signal ps cs mx rnd i a n))) =
          (if c_hasOpenPosition cl (sig_fullSymbol signal) = Inr False
              \<and> (\<exists>b. c_cancelAllOrders cl (sig_fullSymbol signal) = Inr b)
           then [(acc_id a, fst (signalPlan st dec signal ps cs mx rnd a n1))]
           else [])"
    using Some unfolding conjunct1 [OF signalAccount_effects] n1_def by simp
  have submit: "if c_hasOpenPosition cl (sig_fullSymbol signal) = Inr False
                 \<and> (\<exists>b. c_cancelAllOrders cl (sig_fullSymbol signal) = Inr b)
              then (\<exists>order. openOrders (fst (snd (signalAccount st clients dec signal ps cs mx
                                                     rnd i a n)))
                               = [(acc_id a, order)]
                          \<and> op_volume order = jsMax 1 count)
              else openOrders (fst (snd (signalAccount st clients dec signal ps cs mx
                                           rnd i a n))) = []"
    unfolding orders using vol by simp
  show ?thesis
    using Some fin submit
    unfolding Let_def n1_def entryPrice0_def entryPrice_def positionUsd_def fs_def count_def
    by simp
qed

text \<open>
  C2, as amended. In the automatic copy, whenever the derived contract count
  \<open>floor(cappedNotional / (price * contractSize))\<close> is below 1, no order is submitted
  for the account and the error "volume too small" is logged for it; a count that is not
  below 1 is submitted as the volume. In the manual open and in the signal-driven open
  the count is raised to 1: an order with volume \<open>max(1, count)\<close> is submitted for every
  account that has a client (in the signal-driven open: when the account holds no
  position for the symbol and its orders could be cancelled). In all three batches no
  volume below 1 is sent to the client.

  The comparison and the maximum are those of JavaScript. When \<open>price * contractSize\<close>
  is zero the count is \<open>Infinity\<close>, \<open>-Infinity\<close> or \<open>NaN\<close>; of these only \<open>-Infinity\<close> is
  below 1.
\<close>

theorem volume_below_one:
  "(let slaveAccounts = getSlaveAccounts allAccounts;
        step = copyOpenAccount st clients decimalsOf mp rnd;
        runs = accountRuns step 0 slaveAccounts 0;
        blocks = map (\<lambda>(i, a, n). fst (snd (step i a n))) runs
    in map (\<lambda>(i, a, n). a) runs = slaveAccounts
     \<and> copyOpenPosition st allAccounts clients decimalsOf mp rnd
         = (if copyOpenPositions st then concat blocks else [])
     \<and> list_all2
         (\<lambda>(i, a, n) blk.
            (case clients (acc_id a) of
               None \<Rightarrow> blk = [Sleep (randomDelay (delayMinMs st) (delayMaxMs st) (rnd n))]
             | Some cl \<Rightarrow>
                 (let positionUsd = min (maxPositionUsd a) (p_margin mp * p_leverage mp);
                      price = applyPriceDeviation (p_entryPrice mp) (priceDeviationPercent st)
                                (p_side mp) (rnd (Suc n));
                      contractSize = contractSizeOf (c_getContractInfo cl (p_symbol mp));
                      count = jsFloor (jsDivide positionUsd
                                [p_entryPrice mp,
                                 deviationFactor (priceDeviationPercent st) (p_side mp)
                                   (rnd (Suc n)),
                                 contractSize])
                  in (price * contractSize \<noteq> 0 \<longrightarrow>
                        count = Fin (of_int \<lfloor>positionUsd / (price * contractSize)\<rfloor>))
                   \<and> (if jsLess count 1
                       then blk = [Sleep (randomDelay (delayMinMs st) (delayMaxMs st) (rnd n)),
                                   LogError (acc_id a) msgVolumeTooSmall]
                       else (\<exists>order. openOrders blk = [(acc_id a, order)]
                                   \<and> op_volume order = count)))))
         runs blocks
     \<and> (\<forall>v \<in> set (openVolumes (copyOpenPosition st allAccounts clients decimalsOf mp rnd)).
           \<not> jsLess v 1))
 \<and> (let accounts = getEnabledAccounts allAccounts;
        contractInfo = firstContractInfo clients accounts (mo_symbol mo);
        contractSize = contractSizeOf contractInfo;
        priceStep = manualPriceStep mo contractInfo;
        step = manualOpenAccount st clients decimalsOf mo contractSize priceStep rnd;
        runs = accountRuns step 0 accounts 0;
        blocks = map (\<lambda>(i, a, n). fst (snd (step i a n))) runs
    in map (\<lambda>(i, a, n). a) runs = accounts
     \<and> snd (manualOpenPosition st allAccounts clients decimalsOf mo rnd) = concat blocks
     \<and> list_all2
         (\<lambda>(i, a, n) blk.
            (case clients (acc_id a) of
               None \<Rightarrow> blk = []
             | Some cl \<Rightarrow>
                 (let maxPosUsd = min (mo_positionSizeUsd mo) (maxPositionUsd a);
                      entryPrice =
                        (if isMaster a then mo_price mo
                         else applyPriceDeviation (mo_price mo) (priceDeviationPercent st)
                                (mo_side mo) (rnd (if 0 < i then Suc n else n)));
                      count = jsFloor (jsDivide maxPosUsd
                                ((if isMaster a then [mo_price mo]
                                  else [mo_price mo,
                                        deviationFactor (priceDeviationPercent st) (mo_side mo)
                                          (rnd (if 0 < i then Suc n else n))])
                                 @ [contractSize]))
                  in (entryPrice * contractSize \<noteq> 0 \<longrightarrow>
                        count = Fin (of_int \<lfloor>maxPosUsd / (entryPrice * contractSize)\<rfloor>))
                   \<and> (\<exists>order. openOrders blk = [(acc_id a, order)]
                             \<and> op_volume order = jsMax 1 count))))
         runs blocks
     \<and> (\<forall>v \<in> set (openVolumes (snd (manualOpenPosition st allAccounts clients decimalsOf
                                         mo rnd))).
           \<not> jsLess v 1))
 \<and> (\<forall>results effects.
      handleTradeSignal st allAccounts clients decimalsOf priceStep contractLimits txt rnd
        = Some (results, effects) \<longrightarrow>
      (\<exists>signal.
         parseTradeSignal txt = Some signal
       \<and> (let accounts = getEnabledAccounts allAccounts;
               contractSize = contractSizeOf
                                (firstContractInfo clients accounts (sig_fullSymbol signal));
               maxContracts = numOr (contractLimits (sig_fullSymbol signal)) 0;
               step = signalAccount st clients decimalsOf signal priceStep contractSize
                        maxContracts rnd;
               runs = accountRuns step 0 accounts 0;
               blocks = map (\<lambda>(i, a, n). fst (snd (step i a n))) runs
           in map (\<lambda>(i, a, n). a) runs = accounts
            \<and> effects = concat blocks
            \<and> list_all2
                (\<lambda>(i, a, n) blk.
                   (case clients (acc_id a) of
                      None \<Rightarrow> openOrders blk = []
                    | Some cl \<Rightarrow>
                        (let entryPrice0 =
                               sig_entryPrice signal * (1 + signalEntryOffset st / 100);
                             entryPrice =
                               (if isMaster a then entryPrice0
                                else applyPriceDeviation entryPrice0 (priceDeviationPercent st)
                                       (sig_side signal) (rnd (if 0 < i then Suc n else n)));
                             positionUsd =
                               (if 0 < maxContracts
                                then min (maxPositionUsd a)
                                       (maxContracts * contractSize * entryPrice)
                                else maxPositionUsd a);
                             count = jsFloor (jsDivide positionUsd
                                       ((if isMaster a
                                         then [sig_entryPrice signal,
                                               1 + signalEntryOffset st / 100]
                                         else [sig_entryPrice signal,
                                               1 + signalEntryOffset st / 100,
                                               deviationFactor (priceDeviationPercent st)
                                                 (sig_side signal)
                                                 (rnd (if 0 < i then Suc n else n))])
                                        @ [contractSize]))
                         in (entryPrice * contractSize \<noteq> 0 \<longrightarrow>
                               count = Fin (of_int \<lfloor>positionUsd
                                                      / (entryPrice * contractSize)\<rfloor>))
                          \<and> (if c_hasOpenPosition cl (sig_fullSymbol signal) = Inr False
                                 \<and> (\<exists>b. c_cancelAllOrders cl (sig_fullSymbol signal) = Inr b)
                              then (\<exists>order. openOrders blk = [(acc_id a, order)]
                                          \<and> op_volume order = jsMax 1 count)
                              else openOrders blk = []))))
                runs blocks
            \<and> (\<forall>v \<in> set (openVolumes effects). \<not> jsLess v 1))))"
  (is "?copy \<and> ?manual \<and> ?signal")
proof (intro conjI)
  let ?accounts = "getEnabledAccounts allAccounts"
  show ?copy
  proof -
    let ?step = "copyOpenAccount st clients decimalsOf mp rnd"
    let ?slaves = "getSlaveAccounts allAccounts"
    let ?runs = "accountRuns ?step 0 ?slaves 0"
    let ?Q = "\<lambda>i a n blk.
            (case clients (acc_id a) of
               None \<Rightarrow> blk = [Sleep (randomDelay (delayMinMs st) (delayMaxMs st) (rnd n))]
             | Some cl \<Rightarrow>
                 (let positionUsd = min (maxPositionUsd a) (p_margin mp * p_leverage mp);
                      price = applyPriceDeviation (p_entryPrice mp) (priceDeviationPercent st)
                                (p_side mp) (rnd (Suc n));
                      contractSize = contractSizeOf (c_getContractInfo cl (p_symbol mp));
                      count = jsFloor (jsDivide positionUsd
                                [p_entryPrice mp,
                                 deviationFactor (priceDeviationPercent st) (p_side mp)
                                   (rnd (Suc n)),
                                 contractSize])
                  in (price * contractSize \<noteq> 0 \<longrightarrow>
                        count = Fin (of_int \<lfloor>positionUsd / (price * contractSize)\<rfloor>))
                   \<and> (if jsLess count 1
                       then blk = [Sleep (randomDelay (delayMinMs st) (delayMaxMs st) (rnd n)),
                                   LogError (acc_id a) msgVolumeTooSmall]
                       else (\<exists>order. openOrders blk = [(acc_id a, order)]
                                   \<and> op_volume order = count))))"
    have q: "?Q i a n (fst (snd (?step i a n)))" for i a n
      by (rule copyOpenAccount_volume)
    have blocks: "list_all2 (\<lambda>(i, a, n) blk. ?Q i a n blk) ?runs
                    (map (\<lambda>(i, a, n). fst (snd (?step i a n))) ?runs)"
      by (rule runs_blocks [where Q = ?Q and f = "\<lambda>i a n. fst (snd (?step i a n))", OF q])
    have accs: "map (\<lambda>(i, a, n). a) ?runs = ?slaves" by (rule accountRuns_accounts)
    have eff: "copyOpenPosition st allAccounts clients decimalsOf mp rnd
            = (if copyOpenPositions st then fst (snd (forEachAccount ?step 0 ?slaves 0)) else [])"
      by (cases "?slaves = []") (simp_all add: copyOpenPosition_def Let_def split: prod.splits)
    have cat: "copyOpenPosition st allAccounts clients decimalsOf mp rnd
            = (if copyOpenPositions st
               then concat (map (\<lambda>(i, a, n). fst (snd (?step i a n))) ?runs) else [])"
      unfolding eff by (simp add: forEachAccount_runs_effects)
    have "\<forall>e \<in> set (fst (snd (forEachAccount ?step 0 ?slaves 0))).
            \<forall>x order. e = OpenPosition x order \<longrightarrow> \<not> jsLess (op_volume order) 1"
      by (rule forEachAccount_effects_all) (use copyOpenAccount_orders in blast)
    then have "\<forall>v \<in> set (openVolumes (fst (snd (forEachAccount ?step 0 ?slaves 0)))).
                 \<not> jsLess v 1"
      by (intro openVolumes_bound) blast
    then have vols: "\<forall>v \<in> set (openVolumes (copyOpenPosition st allAccounts clients
                                                decimalsOf mp rnd)). \<not> jsLess v 1"
      unfolding eff by simp
    show ?thesis
      unfolding Let_def
      using accs cat blocks vols unfolding Let_def
      by (intro conjI) assumption+
  qed
  show ?manual
  proof -
    define cs where "cs = contractSizeOf (firstContractInfo clients ?accounts (mo_symbol mo))"
    define ps where "ps = manualPriceStep mo (firstContractInfo clients ?accounts (mo_symbol mo))"
    let ?step = "manualOpenAccount st clients decimalsOf mo cs ps rnd"
    let ?runs = "accountRuns ?step 0 ?accounts 0"
    let ?Q = "\<lambda>i a n blk.
            (case clients (acc_id a) of
               None \<Rightarrow> blk = []
             | Some cl \<Rightarrow>
                 (let maxPosUsd = min (mo_positionSizeUsd mo) (maxPositionUsd a);
                      entryPrice =
                        (if isMaster a then mo_price mo
                         else applyPriceDeviation (mo_price mo) (priceDeviationPercent st)
                                (mo_side mo) (rnd (if 0 < i then Suc n else n)));
                      count = jsFloor (jsDivide maxPosUsd
                                ((if isMaster a then [mo_price mo]
                                  else [mo_price mo,
                                        deviationFactor (priceDeviationPercent st) (mo_side mo)
                                          (rnd (if 0 < i then Suc n else n))])
                                 @ [cs]))
                  in (entryPrice * cs \<noteq> 0 \<longrightarrow>
                        count = Fin (of_int \<lfloor>maxPosUsd / (entryPrice * cs)\<rfloor>))
                   \<and> (\<exists>order. openOrders blk = [(acc_id a, order)]
                             \<and> op_volume order = jsMax 1 count)))"
    have q: "?Q i a n (fst (snd (?step i a n)))" for i a n
      by (rule manualOpenAccount_volume)
    have blocks: "list_all2 (\<lambda>(i, a, n) blk. ?Q i a n blk) ?runs
                    (map (\<lambda>(i, a, n). fst (snd (?step i a n))) ?runs)"
      by (rule runs_blocks [where Q = ?Q and f = "\<lambda>i a n. fst (snd (?step i a n))", OF q])
    have accs: "map (\<lambda>(i, a, n). a) ?runs = ?accounts" by (rule accountRuns_accounts)
    have eff: "snd (manualOpenPosition st allAccounts clients decimalsOf mo rnd)
            = fst (snd (forEachAccount ?step 0 ?accounts 0))"
      by (simp add: manualOpenPosition_def Let_def cs_def ps_def split: prod.splits)
    have cat: "snd (manualOpenPosition st allAccounts clients decimalsOf mo rnd)
            = concat (map (\<lambda>(i, a, n). fst (snd (?step i a n))) ?runs)"
      unfolding eff by (simp add: forEachAccount_runs_effects)
    have "\<forall>e \<in> set (fst (snd (forEachAccount ?step 0 ?accounts 0))).
            \<forall>x order. e = OpenPosition x order \<longrightarrow> \<not> jsLess (op_volume order) 1"
      by (rule forEachAccount_effects_all) (use manualOpenAccount_orders in blast)
    then have "\<forall>v \<in> set (openVolumes (fst (snd (forEachAccount ?step 0 ?accounts 0)))).
                 \<not> jsLess v 1"
      by (intro openVolumes_bound) blast
    then have vols: "\<forall>v \<in> set (openVolumes (snd (manualOpenPosition st allAccounts clients
                                                     decimalsOf mo rnd))). \<not> jsLess v 1"
      unfolding eff by simp
    show ?thesis
      unfolding Let_def cs_def [symmetric] ps_def [symmetric]
      using accs cat blocks vols unfolding Let_def
      by (intro conjI) assumption+
  qed
  show ?signal
  proof (intro allI impI)
    fix results effects
    assume run: "handleTradeSignal st allAccounts clients decimalsOf priceStep contractLimits
                   txt rnd = Some (results, effects)"
    then obtain signal where sg: "parseTradeSignal txt = Some signal"
      by (auto simp: handleTradeSignal_def split: if_splits option.splits)
    define cs where "cs = contractSizeOf (firstContractInfo clients ?accounts (sig_fullSymbol signal))"
    define mx where "mx = numOr (contractLimits (sig_fullSymbol signal)) 0"
    let ?step = "signalAccount st clients decimalsOf signal priceStep cs mx rnd"
    let ?runs = "accountRuns ?step 0 ?accounts 0"
    let ?Q = "\<lambda>i a n blk.
                   (case clients (acc_id a) of
                      None \<Rightarrow> openOrders blk = []
                    | Some cl \<Rightarrow>
                        (let entryPrice0 =
                               sig_entryPrice signal * (1 + signalEntryOffset st / 100);
                             entryPrice =
                               (if isMaster a then entryPrice0
                                else applyPriceDeviation entryPrice0 (priceDeviationPercent st)
                                       (sig_side signal) (rnd (if 0 < i then Suc n else n)));
                             positionUsd =
                               (if 0 < mx
                                then min (maxPositionUsd a) (mx * cs * entryPrice)
                                else maxPositionUsd a);
                             count = jsFloor (jsDivide positionUsd
                                       ((if isMaster a
                                         then [sig_entryPrice signal,
                                               1 + signalEntryOffset st / 100]
                                         else [sig_entryPrice signal,
                                               1 + signalEntryOffset st / 100,
                                               deviationFactor (priceDeviationPercent st)
                                                 (sig_side signal)
                                                 (rnd (if 0 < i then Suc n else n))])
                                        @ [cs]))
                         in (entryPrice * cs \<noteq> 0 \<longrightarrow>
                               count = Fin (of_int \<lfloor>positionUsd / (entryPrice * cs)\<rfloor>))
                          \<and> (if c_hasOpenPosition cl (sig_fullSymbol signal) = Inr False
                                 \<and> (\<exists>b. c_cancelAllOrders cl (sig_fullSymbol signal) = Inr b)
                              then (\<exists>order. openOrders blk = [(acc_id a, order)]
                                          \<and> op_volume order = jsMax 1 count)
                              else openOrders blk = [])))"
    have q: "?Q i a n (fst (snd (?step i a n)))" for i a n
      by (rule signalAccount_volume)
    have blocks: "list_all2 (\<lambda>(i, a, n) blk. ?Q i a n blk) ?runs
                    (map (\<lambda>(i, a, n). fst (snd (?step i a n))) ?runs)"
      by (rule runs_blocks [where Q = ?Q and f = "\<lambda>i a n. fst (snd (?step i a n))", OF q])
    have accs: "map (\<lambda>(i, a, n). a) ?runs = ?accounts" by (rule accountRuns_accounts)
    have eff: "effects = fst (snd (forEachAccount ?step 0 ?accounts 0))"
    proof (cases "?accounts = []")
      case True
      then show ?thesis using run sg by (simp add: handleTradeSignal_def split: if_splits)
    next
      case False
      then show ?thesis using run sg
        by (simp add: handleTradeSignal_def Let_def cs_def mx_def split: if_splits prod.splits)
    qed
    have cat: "effects = concat (map (\<lambda>(i, a, n). fst (snd (?step i a n))) ?runs)"
      unfolding eff by (simp add: forEachAccount_runs_effects)
    have "\<forall>e \<in> set (fst (snd (forEachAccount ?step 0 ?accounts 0))).
            \<forall>x order. e = OpenPosition x order \<longrightarrow> \<not> jsLess (op_volume order) 1"
      by (rule forEachAccount_effects_all) (use signalAccount_orders in blast)
    then have "\<forall>v \<in> set (openVolumes (fst (snd (forEachAccount ?step 0 ?accounts 0)))).
                 \<not> jsLess v 1"
      by (intro openVolumes_bound) blast
    then have vols: "\<forall>v \<in> set (openVolumes effects). \<not> jsLess v 1"
      unfolding eff by simp
    have all: "parseTradeSignal txt = Some signal
       \<and> (let accounts = getEnabledAccounts allAccounts;
               contractSize = contractSizeOf
                                (firstContractInfo clients accounts (sig_fullSymbol signal));
               maxContracts = numOr (contractLimits (sig_fullSymbol signal)) 0;
               step = signalAccount st clients decimalsOf signal priceStep contractSize
                        maxContracts rnd;
               runs = accountRuns step 0 accounts 0;
               blocks = map (\<lambda>(i, a, n). fst (snd (step i a n))) runs
           in map (\<lambda>(i, a, n). a) runs = accounts
            \<and> effects = concat blocks
            \<and> list_all2
                (\<lambda>(i, a, n) blk.
                   (case clients (acc_id a) of
                      None \<Rightarrow> openOrders blk = []
                    | Some cl \<Rightarrow>
                        (let entryPrice0 =
                               sig_entryPrice signal * (1 + signalEntryOffset st / 100);
                             entryPrice =
                               (if isMaster a then entryPrice0
                                else applyPriceDeviation entryPrice0 (priceDeviationPercent st)
                                       (sig_side signal) (rnd (if 0 < i then Suc n else n)));
                             positionUsd =
                               (if 0 < maxContracts
                                then min (maxPositionUsd a)
                                       (maxContracts * contractSize * entryPrice)
                                else maxPositionUsd a);
                             count = jsFloor (jsDivide positionUsd
                                       ((if isMaster a
                                         then [sig_entryPrice signal,
                                               1 + signalEntryOffset st / 100]
                                         else [sig_entryPrice signal,
                                               1 + signalEntryOffset st / 100,
                                               deviationFactor (priceDeviationPercent st)
                                                 (sig_side signal)
                                                 (rnd (if 0 < i then Suc n else n))])
                                        @ [contractSize]))
                         in (entryPrice * contractSize \<noteq> 0 \<longrightarrow>
                               count = Fin (of_int \<lfloor>positionUsd
                                                      / (entryPrice * contractSize)\<rfloor>))
                          \<and> (if c_hasOpenPosition cl (sig_fullSymbol signal) = Inr False
                                 \<and> (\<exists>b. c_cancelAllOrders cl (sig_fullSymbol signal) = Inr b)
                              then (\<exists>order. openOrders blk = [(acc_id a, order)]
                                          \<and> op_volume order = jsMax 1 count)
                              else openOrders blk = []))))
                runs blocks
            \<and> (\<forall>v \<in> set (openVolumes effects). \<not> jsLess v 1))"
      unfolding Let_def cs_def [symmetric] mx_def [symmetric]
      using sg accs cat blocks vols unfolding Let_def
      by (intro conjI) assumption+
    show "\<exists>signal.
         parseTradeSignal txt = Some signal
       \<and> (let accounts = getEnabledAccounts allAccounts;
               contractSize = contractSizeOf
                                (firstContractInfo clients accounts (sig_fullSymbol signal));
               maxContracts = numOr (contractLimits (sig_fullSymbol signal)) 0;
               step = signalAccount st clients decimalsOf signal priceStep contractSize
                        maxContracts rnd;
               runs = accountRuns step 0 accounts 0;
               blocks = map (\<lambda>(i, a, n). fst (snd (step i a n))) runs
           in map (\<lambda>(i, a, n). a) runs = accounts
            \<and> effects = concat blocks
            \<and> list_all2
                (\<lambda>(i, a, n) blk.
                   (case clients (acc_id a) of
                      None \<Rightarrow> openOrders blk = []
                    | Some cl \<Rightarrow>
                        (let entryPrice0 =
                               sig_entryPrice signal * (1 + signalEntryOffset st / 100);
                             entryPrice =
                               (if isMaster a then entryPrice0
                                else applyPriceDeviation entryPrice0 (priceDeviationPercent st)
                                       (sig_side signal) (rnd (if 0 < i then Suc n else n)));
                             positionUsd =
                               (if 0 < maxContracts
                                then min (maxPositionUsd a)
                                       (maxContracts * contractSize * entryPrice)
                                else maxPositionUsd a);
                             count = jsFloor (jsDivide positionUsd
                                       ((if isMaster a
                                         then [sig_entryPrice signal,
                                               1 + signalEntryOffset st / 100]
                                         else [sig_entryPrice signal,
                                               1 + signalEntryOffset st / 100,
                                               deviationFactor (priceDeviationPercent st)
                                                 (sig_side signal)
                                                 (rnd (if 0 < i then Suc n else n))])
                                        @ [contractSize]))
                         in (entryPrice * contractSize \<noteq> 0 \<longrightarrow>
                               count = Fin (of_int \<lfloor>positionUsd
                                                      / (entryPrice * contractSize)\<rfloor>))
                          \<and> (if c_hasOpenPosition cl (sig_fullSymbol signal) = Inr False
                                 \<and> (\<exists>b. c_cancelAllOrders cl (sig_fullSymbol signal) = Inr b)
                              then (\<exists>order. openOrders blk = [(acc_id a, order)]
                                          \<and> op_volume order = jsMax 1 count)
                              else openOrders blk = []))))
                runs blocks
            \<and> (\<forall>v \<in> set (openVolumes effects). \<not> jsLess v 1))"
      by (rule exI [of _ signal]) (rule all)
  qed
qed

theorem volume_below_one_witness:
  "copyOpenPosition DEFAULT_SETTINGS
     [demoAccount ''m1'' True, demoAccount ''s1'' False] [''s1'' \<mapsto> quietClient]
     (\<lambda>step. 0)
     \<lparr>p_symbol = ''BTC_USDT'', p_side = Long, p_volume = 5, p_entryPrice = 100,
      p_leverage = 10, p_margin = 1, p_unrealizedPnl = 0, p_liquidationPrice = None\<rparr>
     (\<lambda>k. 1 / 2)
   = [Sleep 500, LogError ''s1'' msgVolumeTooSmall]"
proof -
  let ?accs = "[demoAccount ''m1'' True, demoAccount ''s1'' False]"
  let ?clients = "[''s1'' \<mapsto> quietClient]"
  let ?mp = "\<lparr>p_symbol = ''BTC_USDT'', p_side = Long, p_volume = 5, p_entryPrice = 100,
        p_leverage = 10, p_margin = 1, p_unrealizedPnl = 0, p_liquidationPrice = None\<rparr>"
  let ?step = "copyOpenAccount DEFAULT_SETTINGS ?clients (\<lambda>step. 0) ?mp (\<lambda>k. 1 / 2)"
  let ?runs = "accountRuns ?step 0 [demoAccount ''s1'' False] 0"
  have sl: "getSlaveAccounts ?accs = [demoAccount ''s1'' False]"
    by (simp add: getSlaveAccounts_def demoAccount_def)
  have cat: "copyOpenPosition DEFAULT_SETTINGS ?accs ?clients (\<lambda>step. 0) ?mp (\<lambda>k. 1 / 2)
         = (if copyOpenPositions DEFAULT_SETTINGS
            then concat (map (\<lambda>(i, a, n). fst (snd (?step i a n))) ?runs) else [])"
    and blocks: "list_all2
         (\<lambda>(i, a, n) blk.
            (case ?clients (acc_id a) of
               None \<Rightarrow> blk = [Sleep (randomDelay (delayMinMs DEFAULT_SETTINGS)
                                      (delayMaxMs DEFAULT_SETTINGS) (1 / 2))]
             | Some cl \<Rightarrow>
                 (applyPriceDeviation (p_entryPrice ?mp) (priceDeviationPercent DEFAULT_SETTINGS)
                    (p_side ?mp) (1 / 2)
                  * contractSizeOf (c_getContractInfo cl (p_symbol ?mp)) \<noteq> 0 \<longrightarrow>
                    jsFloor (jsDivide (min (maxPositionUsd a) (p_margin ?mp * p_leverage ?mp))
                                [p_entryPrice ?mp,
                                 deviationFactor (priceDeviationPercent DEFAULT_SETTINGS)
                                   (p_side ?mp) (1 / 2),
                                 contractSizeOf (c_getContractInfo cl (p_symbol ?mp))])
                      = Fin (of_int \<lfloor>min (maxPositionUsd a) (p_margin ?mp * p_leverage ?mp)
                         / (applyPriceDeviation (p_entryPrice ?mp)
                              (priceDeviationPercent DEFAULT_SETTINGS) (p_side ?mp) (1 / 2)
                            * contractSizeOf (c_getContractInfo cl (p_symbol ?mp)))\<rfloor>))
               \<and> (if jsLess (jsFloor (jsDivide
                                (min (maxPositionUsd a) (p_margin ?mp * p_leverage ?mp))
                                [p_entryPrice ?mp,
                                 deviationFactor (priceDeviationPercent DEFAULT_SETTINGS)
                                   (p_side ?mp) (1 / 2),
                                 contractSizeOf (c_getContractInfo cl (p_symbol ?mp))])) 1
                   then blk = [Sleep (randomDelay (delayMinMs DEFAULT_SETTINGS)
                                        (delayMaxMs DEFAULT_SETTINGS) (1 / 2)),
                               LogError (acc_id a) msgVolumeTooSmall]
                   else (\<exists>order. openOrders blk = [(acc_id a, order)]
                               \<and> op_volume order = jsFloor (jsDivide
                                (min (maxPositionUsd a) (p_margin ?mp * p_leverage ?mp))
                                [p_entryPrice ?mp,
                                 deviationFactor (priceDeviationPercent DEFAULT_SETTINGS)
                                   (p_side ?mp) (1 / 2),
                                 contractSizeOf (c_getContractInfo cl (p_symbol ?mp))])))))
         ?runs (map (\<lambda>(i, a, n). fst (snd (?step i a n))) ?runs)"
    using volume_below_one [where clients = ?clients and allAccounts = ?accs and mp = ?mp
        and decimalsOf = "\<lambda>step. 0" and st = DEFAULT_SETTINGS and rnd = "\<lambda>n. 1 / 2"]
    unfolding Let_def sl by blast+
  have b1: "fst (snd (?step 0 (demoAccount ''s1'' False) 0))
              = [Sleep 500, LogError ''s1'' msgVolumeTooSmall]"
    using blocks
    by (simp add: demoAccount_def DEFAULT_SETTINGS_def quietClient_def contractSizeOf_def
        numOr_def jsDivide_def deviationFactor_def randomDelay_def applyPriceDeviation_def)
  show ?thesis unfolding cat using b1 by (simp add: DEFAULT_SETTINGS_def)
qed

end
